theory Spec2Isabelle
  imports Main "HOL-Library.Sublist" "HOL-Library.AList" "HOL-Library.Word"
begin


section \<open>JSON values and Go string helpers\<close>

text \<open>
  Go's \<open>interface{}\<close> holding a decoded JSON document. An object is an association
  list read with \<open>map_of\<close> (the first binding of a key is the map's entry), \<open>JNull\<close> is
  Go's \<open>nil\<close>. Numbers are the integers the gateway itself produces and reads back
  (block indices, token counts); fractional \<open>float64\<close> values are outside the model.
\<close>

datatype json =
    JNull
  | JBool bool
  | JNum int
  | JStr string
  | JArr "json list"
  | JObj "(string \<times> json) list"

text \<open>\<open>m[k]\<close> on a \<open>map[string]interface{}\<close>: a missing key reads as \<open>nil\<close>.\<close>

definition field :: "(string \<times> json) list \<Rightarrow> string \<Rightarrow> json" where
  "field m k = (case map_of m k of Some v \<Rightarrow> v | None \<Rightarrow> JNull)"

text \<open>\<open>v, _ := x.(string)\<close> and \<open>v, _ := x.(bool)\<close>: the zero value when the assertion fails.\<close>

definition str_or_empty :: "json \<Rightarrow> string" where
  "str_or_empty v = (case v of JStr s \<Rightarrow> s | _ \<Rightarrow> [])"

definition bool_or_false :: "json \<Rightarrow> bool" where
  "bool_or_false v = (case v of JBool b \<Rightarrow> b | _ \<Rightarrow> False)"

text \<open>\<open>strings.Index(s, sub)\<close>: the offset of the first occurrence, \<open>None\<close> for Go's -1.\<close>

fun strings_Index :: "string \<Rightarrow> string \<Rightarrow> nat option" where
  "strings_Index [] sub = (if sub = [] then Some 0 else None)"
| "strings_Index (c # s) sub =
     (if prefix sub (c # s) then Some 0 else map_option Suc (strings_Index s sub))"

section \<open>Outgoing events (parser.go, FormatSSE and the Build functions)\<close>

text \<open>
  An outgoing string is kept as the sequence of its \<open>event:\<close>/\<open>data:\<close> records, each
  the event name and the JSON value that \<open>FormatSSE\<close> serialises. Concatenating two
  formatted strings is appending the record lists. The textual key order that
  \<open>FormatSSE\<close> arranges is below this level.
\<close>

type_synonym sse = "(string \<times> json) list"

definition FormatSSE :: "string \<Rightarrow> json \<Rightarrow> sse" where
  "FormatSSE eventType data = [(eventType, data)]"

text \<open>\<open>GenerateMessageID\<close> draws random bytes: the identifier it returns is the parameter \<open>messageID\<close>.\<close>

definition BuildMessageStart :: "string \<Rightarrow> string \<Rightarrow> int \<Rightarrow> sse \<times> string" where
  "BuildMessageStart messageID model inputTokens =
     (FormatSSE ''message_start'' (JObj
        [(''type'', JStr ''message_start''),
         (''message'', JObj
            [(''model'', JStr model),
             (''id'', JStr messageID),
             (''type'', JStr ''message''),
             (''role'', JStr ''assistant''),
             (''content'', JArr []),
             (''stop_reason'', JNull),
             (''stop_sequence'', JNull),
             (''usage'', JObj
                [(''input_tokens'', JNum inputTokens),
                 (''cache_creation_input_tokens'', JNum 0),
                 (''cache_read_input_tokens'', JNum 0),
                 (''cache_creation'', JObj
                    [(''ephemeral_5m_input_tokens'', JNum 0),
                     (''ephemeral_1h_input_tokens'', JNum 0)]),
                 (''output_tokens'', JNum 1),
                 (''service_tier'', JStr ''standard'')])])]),
      messageID)"

definition BuildContentBlockStart :: "int \<Rightarrow> string \<Rightarrow> sse" where
  "BuildContentBlockStart index blockType =
     (let contentBlock = [(''type'', JStr blockType)];
          contentBlock = (if blockType = ''text'' \<or> blockType = ''thinking''
                          then contentBlock @ [(''text'', JStr [])] else contentBlock)
      in FormatSSE ''content_block_start'' (JObj
           [(''type'', JStr ''content_block_start''),
            (''index'', JNum index),
            (''content_block'', JObj contentBlock)]))"

definition BuildContentBlockDelta :: "int \<Rightarrow> string \<Rightarrow> sse" where
  "BuildContentBlockDelta index text =
     FormatSSE ''content_block_delta'' (JObj
       [(''type'', JStr ''content_block_delta''),
        (''index'', JNum index),
        (''delta'', JObj [(''type'', JStr ''text_delta''), (''text'', JStr text)])])"

definition BuildContentBlockStop :: "int \<Rightarrow> sse" where
  "BuildContentBlockStop index =
     FormatSSE ''content_block_stop'' (JObj
       [(''type'', JStr ''content_block_stop''), (''index'', JNum index)])"

definition BuildPing :: sse where
  "BuildPing = FormatSSE ''ping'' (JObj [(''type'', JStr ''ping'')])"

definition BuildMessageStop :: "int \<Rightarrow> int \<Rightarrow> string option \<Rightarrow> sse" where
  "BuildMessageStop inputTokens outputTokens stopReason =
     (let reason = (case stopReason of None \<Rightarrow> ''end_turn'' | Some r \<Rightarrow> r);
          deltaEvent = FormatSSE ''message_delta'' (JObj
            [(''type'', JStr ''message_delta''),
             (''delta'', JObj [(''stop_reason'', JStr reason), (''stop_sequence'', JNull)]),
             (''usage'', JObj
                [(''input_tokens'', JNum inputTokens),
                 (''cache_creation_input_tokens'', JNum 0),
                 (''cache_read_input_tokens'', JNum 0),
                 (''output_tokens'', JNum outputTokens)])]);
          stopEvent = FormatSSE ''message_stop'' (JObj [(''type'', JStr ''message_stop'')])
      in deltaEvent @ stopEvent)"

definition BuildToolUseStart :: "int \<Rightarrow> string \<Rightarrow> string \<Rightarrow> sse" where
  "BuildToolUseStart index toolUseID toolName =
     FormatSSE ''content_block_start'' (JObj
       [(''type'', JStr ''content_block_start''),
        (''index'', JNum index),
        (''content_block'', JObj
           [(''type'', JStr ''tool_use''),
            (''id'', JStr toolUseID),
            (''name'', JStr toolName),
            (''input'', JObj [])])])"

definition BuildToolUseInputDelta :: "int \<Rightarrow> string \<Rightarrow> sse" where
  "BuildToolUseInputDelta index inputJSONDelta =
     FormatSSE ''content_block_delta'' (JObj
       [(''type'', JStr ''content_block_delta''),
        (''index'', JNum index),
        (''delta'', JObj
           [(''type'', JStr ''input_json_delta''), (''partial_json'', JStr inputJSONDelta)])])"

subsection \<open>Reading an outgoing event\<close>

text \<open>The event names of an outgoing string, and accessors for the fields the properties speak of.\<close>

definition event_names :: "sse \<Rightarrow> string list" where
  "event_names e = map fst e"

definition is_message_start :: "sse \<Rightarrow> bool" where
  "is_message_start e = (event_names e = [''message_start''])"

definition is_block_start :: "sse \<Rightarrow> bool" where
  "is_block_start e = (event_names e = [''content_block_start''])"

definition is_block_stop :: "sse \<Rightarrow> bool" where
  "is_block_stop e = (event_names e = [''content_block_stop''])"

definition is_ping :: "sse \<Rightarrow> bool" where
  "is_ping e = (event_names e = [''ping''])"

definition first_data :: "sse \<Rightarrow> (string \<times> json) list" where
  "first_data e = (case e of (_, JObj m) # _ \<Rightarrow> m | _ \<Rightarrow> [])"

definition event_index :: "sse \<Rightarrow> json" where
  "event_index e = field (first_data e) ''index''"

definition block_type :: "sse \<Rightarrow> json" where
  "block_type e = (case field (first_data e) ''content_block'' of
                     JObj b \<Rightarrow> field b ''type'' | _ \<Rightarrow> JNull)"

definition delta_of :: "sse \<Rightarrow> (string \<times> json) list" where
  "delta_of e = (case field (first_data e) ''delta'' of JObj d \<Rightarrow> d | _ \<Rightarrow> [])"


section \<open>The stream handler (streaming.go)\<close>

definition ThinkingStartTag :: string where
  "ThinkingStartTag = ''<thinking>''"

definition ThinkingEndTag :: string where
  "ThinkingEndTag = ''</thinking>''"

text \<open>
  \<open>CurrentToolUse\<close> is \<open>None\<close> for Go's nil map. \<open>ProcessedToolUseIDs\<close> is the set of
  keys of the \<open>map[string]bool\<close> (every stored value is \<open>true\<close>). Go's \<open>int\<close> is 64 bits
  wide; the index counter would need 2^63 openings to wrap and is an \<open>int\<close> here.
\<close>

record ClaudeStreamHandler =
  Model :: string
  InputTokens :: int
  ResponseBuffer :: "string list"
  ContentBlockIndex :: int
  ContentBlockStarted :: bool
  ContentBlockStartSent :: bool
  ContentBlockStopSent :: bool
  MessageStartSent :: bool
  ConversationID :: string
  MessageID :: string
  CurrentToolUse :: "(string \<times> json) list option"
  ToolInputBuffer :: "string list"
  ToolUseID :: string
  ToolName :: string
  ProcessedToolUseIDs :: "string set"
  AllToolInputs :: "string list"
  InThinkBlock :: bool
  ThinkBuffer :: string
  PingPending :: bool

definition NewClaudeStreamHandler :: "string \<Rightarrow> int \<Rightarrow> ClaudeStreamHandler" where
  "NewClaudeStreamHandler model inputTokens =
     \<lparr> Model = model, InputTokens = inputTokens, ResponseBuffer = [],
       ContentBlockIndex = -1, ContentBlockStarted = False, ContentBlockStartSent = False,
       ContentBlockStopSent = False, MessageStartSent = False, ConversationID = [],
       MessageID = [], CurrentToolUse = None, ToolInputBuffer = [], ToolUseID = [],
       ToolName = [], ProcessedToolUseIDs = {}, AllToolInputs = [], InThinkBlock = False,
       ThinkBuffer = [], PingPending = False \<rparr>"

text \<open>The ping that follows a content_block_start while \<open>PingPending\<close> is set (lines 118-121, 140-143, 155-158, 221-224).\<close>

definition fire_ping :: "ClaudeStreamHandler \<times> sse list \<Rightarrow> ClaudeStreamHandler \<times> sse list" where
  "fire_ping p =
     (case p of (h, events) \<Rightarrow>
        if PingPending h then (h\<lparr>PingPending := False\<rparr>, events @ [BuildPing])
        else (h, events))"

text \<open>Opening a text block when none has been started (lines 112-122 and 149-159, the same statements).\<close>

definition open_text_block :: "ClaudeStreamHandler \<times> sse list \<Rightarrow> ClaudeStreamHandler \<times> sse list" where
  "open_text_block p =
     (case p of (h, events) \<Rightarrow>
        if \<not> ContentBlockStartSent h then
          (let h = h\<lparr>ContentBlockIndex := ContentBlockIndex h + 1\<rparr>;
               events = events @ [BuildContentBlockStart (ContentBlockIndex h) ''text''];
               h = h\<lparr>ContentBlockStartSent := True, ContentBlockStarted := True\<rparr>
           in fire_ping (h, events))
        else (h, events))"

text \<open>Lines 108-145: the start tag was found at \<open>thinkStart\<close> (already offset by \<open>pos\<close>).\<close>

definition on_think_start :: "ClaudeStreamHandler \<Rightarrow> nat \<Rightarrow> nat \<Rightarrow> sse list \<Rightarrow> ClaudeStreamHandler \<times> sse list" where
  "on_think_start h pos thinkStart events =
     (let beforeText = take (thinkStart - pos) (drop pos (ThinkBuffer h));
          (h, events) =
            (if beforeText \<noteq> [] then
               (let (h, events) = open_text_block (h, events);
                    h = h\<lparr>ResponseBuffer := ResponseBuffer h @ [beforeText]\<rparr>
                in (h, events @ [BuildContentBlockDelta (ContentBlockIndex h) beforeText]))
             else (h, events));
          (h, events) =
            (if ContentBlockStartSent h then
               (h\<lparr>ContentBlockStopSent := True, ContentBlockStartSent := False\<rparr>,
                events @ [BuildContentBlockStop (ContentBlockIndex h)])
             else (h, events));
          h = h\<lparr>ContentBlockIndex := ContentBlockIndex h + 1\<rparr>;
          events = events @ [BuildContentBlockStart (ContentBlockIndex h) ''thinking''];
          h = h\<lparr>ContentBlockStartSent := True, ContentBlockStarted := True,
                 ContentBlockStopSent := False\<rparr>;
          (h, events) = fire_ping (h, events)
      in (h\<lparr>InThinkBlock := True\<rparr>, events))"

text \<open>Lines 148-162: no start tag in the rest of the buffer; everything left is sent as text.\<close>

definition flush_text :: "ClaudeStreamHandler \<Rightarrow> nat \<Rightarrow> sse list \<Rightarrow> ClaudeStreamHandler \<times> sse list" where
  "flush_text h pos events =
     (let remaining = drop pos (ThinkBuffer h);
          (h, events) = open_text_block (h, events);
          h = h\<lparr>ResponseBuffer := ResponseBuffer h @ [remaining]\<rparr>;
          events = events @ [BuildContentBlockDelta (ContentBlockIndex h) remaining]
      in (h\<lparr>ThinkBuffer := []\<rparr>, events))"

text \<open>Lines 169-181: the end tag was found at \<open>thinkEnd\<close>.\<close>

definition on_think_end :: "ClaudeStreamHandler \<Rightarrow> nat \<Rightarrow> nat \<Rightarrow> sse list \<Rightarrow> ClaudeStreamHandler \<times> sse list" where
  "on_think_end h pos thinkEnd events =
     (let thinkingText = take (thinkEnd - pos) (drop pos (ThinkBuffer h));
          events = (if thinkingText \<noteq> []
                    then events @ [BuildContentBlockDelta (ContentBlockIndex h) thinkingText]
                    else events);
          events = events @ [BuildContentBlockStop (ContentBlockIndex h)]
      in (h\<lparr>ContentBlockStopSent := True, ContentBlockStartSent := False,
             InThinkBlock := False\<rparr>, events))"

text \<open>Lines 184-186: no end tag; everything left is sent as a delta of the thinking block.\<close>

definition flush_thinking :: "ClaudeStreamHandler \<Rightarrow> nat \<Rightarrow> sse list \<Rightarrow> ClaudeStreamHandler \<times> sse list" where
  "flush_thinking h pos events =
     (let remaining = drop pos (ThinkBuffer h);
          events = events @ [BuildContentBlockDelta (ContentBlockIndex h) remaining]
      in (h\<lparr>ThinkBuffer := []\<rparr>, events))"

lemma ThinkBuffer_fire_ping [simp]: "ThinkBuffer (fst (fire_ping (h, ev))) = ThinkBuffer h"
  by (simp add: fire_ping_def)

lemma ThinkBuffer_open_text_block [simp]:
  "ThinkBuffer (fst (open_text_block (h, ev))) = ThinkBuffer h"
  by (simp add: open_text_block_def Let_def)

lemma ThinkBuffer_on_think_start [simp]:
  "ThinkBuffer (fst (on_think_start h pos ts ev)) = ThinkBuffer h"
  by (simp add: on_think_start_def Let_def split_beta)

lemma ThinkBuffer_on_think_end [simp]:
  "ThinkBuffer (fst (on_think_end h pos te ev)) = ThinkBuffer h"
  by (simp add: on_think_end_def Let_def)

text \<open>
  The scanning loop, lines 103-190. It returns the handler, \<open>pos\<close> and the events when
  the loop is left, by its condition or by one of the two \<open>break\<close>s.
\<close>

function scan :: "ClaudeStreamHandler \<Rightarrow> nat \<Rightarrow> sse list \<Rightarrow> ClaudeStreamHandler \<times> nat \<times> sse list" where
  "scan h pos events =
     (if pos < length (ThinkBuffer h) then
        (if \<not> InThinkBlock h then
           (case strings_Index (drop pos (ThinkBuffer h)) ThinkingStartTag of
              Some i \<Rightarrow>
                scan (fst (on_think_start h pos (i + pos) events))
                     (i + pos + length ThinkingStartTag)
                     (snd (on_think_start h pos (i + pos) events))
            | None \<Rightarrow>
                (fst (flush_text h pos events), pos, snd (flush_text h pos events)))
         else
           (case strings_Index (drop pos (ThinkBuffer h)) ThinkingEndTag of
              Some i \<Rightarrow>
                scan (fst (on_think_end h pos (i + pos) events))
                     (i + pos + length ThinkingEndTag)
                     (snd (on_think_end h pos (i + pos) events))
            | None \<Rightarrow>
                (fst (flush_thinking h pos events), pos, snd (flush_thinking h pos events))))
      else (h, pos, events))"
  by pat_completeness auto
termination
  by (relation "measure (\<lambda>(h, pos, events). length (ThinkBuffer h) - pos)")
     (auto simp: ThinkingStartTag_def ThinkingEndTag_def)


text \<open>Block 1 of \<open>HandleEvent\<close>, lines 68-85: \<open>initial-response\<close>.\<close>

definition on_initial_response ::
  "string \<Rightarrow> (string \<times> json) list \<Rightarrow> ClaudeStreamHandler \<Rightarrow> sse list \<Rightarrow> ClaudeStreamHandler \<times> sse list" where
  "on_initial_response mid payloadMap h events =
     (if \<not> MessageStartSent h then
        (let convID = str_or_empty (field payloadMap ''conversationId'');
             convID = (if convID = [] then ConversationID h else convID);
             convID = (if convID = [] then ''unknown'' else convID);
             h = h\<lparr>ConversationID := convID\<rparr>;
             (messageStartEvent, messageID) = BuildMessageStart mid (Model h) (InputTokens h);
             h = h\<lparr>MessageID := messageID\<rparr>;
             events = events @ [messageStartEvent]
         in (h\<lparr>MessageStartSent := True, PingPending := True\<rparr>, events))
      else (h, events))"

text \<open>Lines 92-96: an open tool-use block is closed before text is handled.\<close>

definition close_tool_block :: "ClaudeStreamHandler \<times> sse list \<Rightarrow> ClaudeStreamHandler \<times> sse list" where
  "close_tool_block p =
     (case p of (h, events) \<Rightarrow>
        if CurrentToolUse h \<noteq> None \<and> \<not> ContentBlockStopSent h then
          (h\<lparr>ContentBlockStopSent := True, CurrentToolUse := None\<rparr>,
           events @ [BuildContentBlockStop (ContentBlockIndex h)])
        else (h, events))"

text \<open>Block 2, lines 88-199: \<open>assistantResponseEvent\<close>.\<close>

definition on_assistant_response ::
  "(string \<times> json) list \<Rightarrow> ClaudeStreamHandler \<Rightarrow> sse list \<Rightarrow> ClaudeStreamHandler \<times> sse list" where
  "on_assistant_response payloadMap h events =
     (let content = str_or_empty (field payloadMap ''content'');
          (h, events) = close_tool_block (h, events)
      in if content \<noteq> [] then
           (let h = h\<lparr>ThinkBuffer := ThinkBuffer h @ content\<rparr>;
                (h, pos, events) = scan h 0 events;
                h = (if pos < length (ThinkBuffer h)
                     then h\<lparr>ThinkBuffer := drop pos (ThinkBuffer h)\<rparr>
                     else h\<lparr>ThinkBuffer := []\<rparr>)
            in (h, events))
         else (h, events))"

text \<open>
  Block 3, lines 202-266: \<open>toolUseEvent\<close>. \<open>json.Marshal\<close> of an input that is not
  a string is the parameter \<open>marshal\<close>.
\<close>

definition on_tool_use ::
  "(json \<Rightarrow> string) \<Rightarrow> (string \<times> json) list \<Rightarrow> ClaudeStreamHandler \<Rightarrow> sse list \<Rightarrow> ClaudeStreamHandler \<times> sse list" where
  "on_tool_use marshal payloadMap h events =
     (let toolUseID = str_or_empty (field payloadMap ''toolUseId'');
          toolName = str_or_empty (field payloadMap ''name'');
          toolInput = field payloadMap ''input'';
          isStop = bool_or_false (field payloadMap ''stop'');
          (h, events) =
            (if toolUseID \<noteq> [] \<and> toolName \<noteq> [] \<and> CurrentToolUse h = None then
               (let (h, events) =
                      (if ContentBlockStartSent h \<and> \<not> ContentBlockStopSent h then
                         (h\<lparr>ContentBlockStopSent := True\<rparr>,
                          events @ [BuildContentBlockStop (ContentBlockIndex h)])
                       else (h, events));
                    h = h\<lparr>ProcessedToolUseIDs := insert toolUseID (ProcessedToolUseIDs h),
                           ContentBlockIndex := ContentBlockIndex h + 1\<rparr>;
                    events = events @ [BuildToolUseStart (ContentBlockIndex h) toolUseID toolName];
                    (h, events) = fire_ping (h, events)
                in (h\<lparr>ContentBlockStarted := True,
                       CurrentToolUse := Some [(''toolUseId'', JStr toolUseID), (''name'', JStr toolName)],
                       ToolUseID := toolUseID, ToolName := toolName, ToolInputBuffer := [],
                       ContentBlockStopSent := False, ContentBlockStartSent := True\<rparr>, events))
             else (h, events));
          (h, events) =
            (if CurrentToolUse h \<noteq> None \<and> toolInput \<noteq> JNull then
               (let fragment = (case toolInput of JStr v \<Rightarrow> v | _ \<Rightarrow> marshal toolInput);
                    h = h\<lparr>ToolInputBuffer := ToolInputBuffer h @ [fragment]\<rparr>
                in (h, events @ [BuildToolUseInputDelta (ContentBlockIndex h) fragment]))
             else (h, events))
      in if isStop \<and> CurrentToolUse h \<noteq> None then
           (let fullInput = concat (ToolInputBuffer h);
                h = h\<lparr>AllToolInputs := AllToolInputs h @ [fullInput]\<rparr>;
                events = events @ [BuildContentBlockStop (ContentBlockIndex h)]
            in (h\<lparr>ContentBlockStopSent := True, ContentBlockStarted := False,
                   CurrentToolUse := None, ToolUseID := [], ToolName := [],
                   ToolInputBuffer := []\<rparr>, events))
         else (h, events))"

text \<open>Block 4, lines 269-275: \<open>assistantResponseEnd\<close>.\<close>

definition on_assistant_end :: "ClaudeStreamHandler \<Rightarrow> sse list \<Rightarrow> ClaudeStreamHandler \<times> sse list" where
  "on_assistant_end h events =
     (if ContentBlockStarted h \<and> \<not> ContentBlockStopSent h then
        (h\<lparr>ContentBlockStopSent := True\<rparr>, events @ [BuildContentBlockStop (ContentBlockIndex h)])
      else (h, events))"

text \<open>
  \<open>HandleEvent\<close>: the events appended by this call and the handler after it. A payload
  that is not a JSON object fails the assertion of line 62 and returns at once.
\<close>

definition HandleEvent ::
  "string \<Rightarrow> (json \<Rightarrow> string) \<Rightarrow> string \<Rightarrow> json \<Rightarrow> ClaudeStreamHandler \<Rightarrow> sse list \<times> ClaudeStreamHandler" where
  "HandleEvent mid marshal eventType payload h =
     (case payload of
        JObj payloadMap \<Rightarrow>
          (let (h, events) =
                 (if eventType = ''initial-response''
                  then on_initial_response mid payloadMap h [] else (h, []));
               (h, events) =
                 (if eventType = ''assistantResponseEvent''
                  then on_assistant_response payloadMap h events else (h, events));
               (h, events) =
                 (if eventType = ''toolUseEvent''
                  then on_tool_use marshal payloadMap h events else (h, events));
               (h, events) =
                 (if eventType = ''assistantResponseEnd''
                  then on_assistant_end h events else (h, events))
           in (events, h))
      | _ \<Rightarrow> ([], h))"

definition Finish :: "ClaudeStreamHandler \<Rightarrow> sse list \<times> ClaudeStreamHandler" where
  "Finish h =
     (let (h, events) =
            (if ContentBlockStarted h \<and> \<not> ContentBlockStopSent h then
               (h\<lparr>ContentBlockStopSent := True\<rparr>, [BuildContentBlockStop (ContentBlockIndex h)])
             else (h, []));
          fullText = concat (ResponseBuffer h);
          fullToolInput = concat (AllToolInputs h);
          outputTokens = (int (length fullText) + int (length fullToolInput)) div 4;
          outputTokens = (if outputTokens < 1 then 1 else outputTokens)
      in (events @ [BuildMessageStop (InputTokens h) outputTokens None], h))"

text \<open>
  A run of the handler over classified events \<open>(eventType, payload)\<close>, one
  \<open>HandleEvent\<close> call each, as the loop of \<open>ProcessEventStream\<close> makes them; \<open>run_finish\<close>
  adds the call of \<open>Finish\<close> that follows the loop and returns everything emitted.
\<close>

fun feed ::
  "string \<Rightarrow> (json \<Rightarrow> string) \<Rightarrow> ClaudeStreamHandler \<Rightarrow> (string \<times> json) list \<Rightarrow> sse list \<times> ClaudeStreamHandler" where
  "feed mid marshal h [] = ([], h)"
| "feed mid marshal h (e # es) =
     (case HandleEvent mid marshal (fst e) (snd e) h of
        (out, h') \<Rightarrow> (case feed mid marshal h' es of (outs, h'') \<Rightarrow> (out @ outs, h'')))"

definition run_finish ::
  "string \<Rightarrow> (json \<Rightarrow> string) \<Rightarrow> ClaudeStreamHandler \<Rightarrow> (string \<times> json) list \<Rightarrow> sse list" where
  "run_finish mid marshal h es =
     (case feed mid marshal h es of (outs, h') \<Rightarrow> outs @ fst (Finish h'))"


section \<open>The event-stream decoder (parser.go)\<close>

text \<open>
  A byte is a \<open>char\<close> and a byte string a \<open>string\<close>. A Go slice of bytes is the backing
  array seen from the slice's first element, together with the slice's length: its
  capacity is the length of that list. A slice expression \<open>s[lo:hi]\<close> panics unless
  \<open>lo \<le> hi \<le> cap(s)\<close>; within the capacity it may reach past the length.
\<close>

type_synonym bytes = "string \<times> nat"

definition blen :: "bytes \<Rightarrow> nat" where
  "blen s = snd s"

definition bcap :: "bytes \<Rightarrow> nat" where
  "bcap s = length (fst s)"

definition elems :: "bytes \<Rightarrow> string" where
  "elems s = take (snd s) (fst s)"

definition reslice :: "bytes \<Rightarrow> nat \<Rightarrow> nat \<Rightarrow> bytes option" where
  "reslice s lo hi =
     (if lo \<le> hi \<and> hi \<le> bcap s then Some (drop lo (fst s), hi - lo) else None)"

text \<open>\<open>binary.BigEndian.Uint32\<close> and \<open>Uint16\<close> of a 4-byte and a 2-byte string.\<close>

definition be_nat :: "string \<Rightarrow> nat" where
  "be_nat bs = foldl (\<lambda>a b. a * 256 + of_char b) 0 bs"

definition be_u32 :: "string \<Rightarrow> 32 word" where
  "be_u32 bs = word_of_nat (be_nat bs)"

text \<open>
  One round of the loop of \<open>ParseHeaders\<close> at \<open>offset\<close> (\<open>offset < len\<close> holds): the
  offset after the header and the header read, or \<open>None\<close> where the loop breaks. Both
  branches on the value type read the value as a string.
\<close>

definition parse_header :: "string \<Rightarrow> nat \<Rightarrow> (nat \<times> string \<times> string) option" where
  "parse_header headersData offset =
     (let nameLength = (of_char (headersData ! offset) :: nat);
          offset = offset + 1
      in if offset + nameLength > length headersData then None
         else
           (let name = take nameLength (drop offset headersData);
                offset = offset + nameLength
            in if offset \<ge> length headersData then None
               else
                 (let valueType = headersData ! offset;
                      offset = offset + 1
                  in if offset + 2 > length headersData then None
                     else
                       (let valueLength = be_nat (take 2 (drop offset headersData));
                            offset = offset + 2
                        in if offset + valueLength > length headersData then None
                           else Some (offset + valueLength,
                                      name, take valueLength (drop offset headersData))))))"

lemma parse_header_advances:
  "parse_header headersData offset = Some (offset', nv) \<Longrightarrow> offset < offset'"
  by (auto simp: parse_header_def Let_def split: if_splits)

function ParseHeaders_from :: "string \<Rightarrow> nat \<Rightarrow> (string \<times> string) list \<Rightarrow> (string \<times> string) list" where
  "ParseHeaders_from headersData offset headers =
     (if offset < length headersData then
        (case parse_header headersData offset of
           None \<Rightarrow> headers
         | Some (offset', name, value) \<Rightarrow>
             ParseHeaders_from headersData offset' (AList.update name value headers))
      else headers)"
  by pat_completeness auto
termination
  by (relation "measure (\<lambda>(headersData, offset, headers). length headersData - offset)")
     (auto simp: parse_header_def Let_def split: if_splits)

declare ParseHeaders_from.simps [simp del]

definition ParseHeaders :: "string \<Rightarrow> (string \<times> string) list" where
  "ParseHeaders headersData = ParseHeaders_from headersData 0 []"

record EventStreamMessage =
  Headers :: "(string \<times> string) list"
  Payload :: json
  TotalLength :: "32 word"

text \<open>
  What a call returns: a value, an error value, or a run-time panic (an index or slice
  out of range), which nothing in the repository recovers from.
\<close>

datatype parse_error = DataTooShort | Incomplete nat nat

datatype 'a go_result = Ok 'a | Err parse_error | Panic

text \<open>
  \<open>ParseMessage\<close>. The sums \<open>12 + headersLength\<close> and \<open>totalLength - 4\<close> are \<open>uint32\<close>
  arithmetic and wrap around. \<open>json.Unmarshal\<close> of the payload is the parameter
  \<open>unmarshal\<close>, \<open>None\<close> when it returns an error.
\<close>

definition ParseMessage :: "(string \<Rightarrow> json option) \<Rightarrow> bytes \<Rightarrow> EventStreamMessage go_result" where
  "ParseMessage unmarshal data =
     (if blen data < 16 then Err DataTooShort
      else
        (let totalLength = be_u32 (take 4 (fst data));
             headersLength = be_u32 (take 4 (drop 4 (fst data)))
         in if blen data < unat totalLength then Err (Incomplete (unat totalLength) (blen data))
            else
              (case reslice data 12 (unat (12 + headersLength)) of
                 None \<Rightarrow> Panic
               | Some headersData \<Rightarrow>
                   (let headers = ParseHeaders (elems headersData);
                        payloadStart = 12 + headersLength;
                        payloadEnd = totalLength - 4
                    in case reslice data (unat payloadStart) (unat payloadEnd) of
                         None \<Rightarrow> Panic
                       | Some payloadData \<Rightarrow>
                           (let payload =
                                  (if blen payloadData > 0 then
                                     (case unmarshal (elems payloadData) of
                                        Some v \<Rightarrow> v
                                      | None \<Rightarrow> JStr (elems payloadData))
                                   else JNull)
                            in Ok \<lparr> Headers = headers, Payload = payload,
                                    TotalLength = totalLength \<rparr>)))))"

text \<open>
  The inner loop of \<open>ParseStream\<close> (lines 143-163) on the buffer, with the messages sent
  on the channel so far. A panic ends it; a frame that \<open>ParseMessage\<close> rejects with an
  error is dropped and the loop continues. The loop need not end (a declared total
  length of 0 removes nothing from the buffer): not returning is \<open>None\<close>.
\<close>

datatype drained = Drained bytes "EventStreamMessage list" | Crashed "EventStreamMessage list"

partial_function (option) drain ::
  "(string \<Rightarrow> json option) \<Rightarrow> bytes \<Rightarrow> EventStreamMessage list \<Rightarrow> drained option" where
  "drain unmarshal buffer sent =
     (if blen buffer \<ge> 12 then
        (let totalLength = be_u32 (take 4 (fst buffer))
         in if blen buffer < unat totalLength then Some (Drained buffer sent)
            else
              (let messageData = (fst buffer, unat totalLength);
                   buffer = (drop (unat totalLength) (fst buffer), blen buffer - unat totalLength)
               in case ParseMessage unmarshal messageData of
                    Err e \<Rightarrow> drain unmarshal buffer sent
                  | Panic \<Rightarrow> Some (Crashed sent)
                  | Ok message \<Rightarrow> drain unmarshal buffer (sent @ [message])))
      else Some (Drained buffer sent))"

declare drain.simps [code]

text \<open>
  \<open>append(buffer, chunk[:n]...)\<close>: in place when the capacity suffices, else into a
  new zeroed array whose capacity the run-time chooses (the parameter \<open>grow\<close>, given the
  length needed).
\<close>

definition append_bytes :: "(nat \<Rightarrow> nat) \<Rightarrow> bytes \<Rightarrow> string \<Rightarrow> bytes" where
  "append_bytes grow buffer chunk =
     (let n = blen buffer + length chunk
      in if n \<le> bcap buffer
         then (elems buffer @ chunk @ drop n (fst buffer), n)
         else (elems buffer @ chunk @ replicate (grow n - n) (CHR 0x00), n))"

text \<open>
  \<open>ParseStream\<close> over the results of the successive \<open>Read\<close> calls, each the bytes read
  and the error returned with them; a reader that has no more results is at end of
  stream. It returns the messages sent and how the function ended.
\<close>

datatype read_error = NoError | EOF | ReadFailed

datatype stream_end = Returned_nil | Returned_error | Panicked

fun ParseStream_from ::
  "(string \<Rightarrow> json option) \<Rightarrow> (nat \<Rightarrow> nat) \<Rightarrow> (string \<times> read_error) list \<Rightarrow> bytes \<Rightarrow>
   EventStreamMessage list \<Rightarrow> (EventStreamMessage list \<times> stream_end) option" where
  "ParseStream_from unmarshal grow [] buffer sent = Some (sent, Returned_nil)"
| "ParseStream_from unmarshal grow ((chunk, err) # reads) buffer sent =
     (case (if chunk \<noteq> [] then drain unmarshal (append_bytes grow buffer chunk) sent
            else Some (Drained buffer sent)) of
        None \<Rightarrow> None
      | Some (Crashed sent) \<Rightarrow> Some (sent, Panicked)
      | Some (Drained buffer sent) \<Rightarrow>
          (if err = EOF then Some (sent, Returned_nil)
           else if err \<noteq> NoError then Some (sent, Returned_error)
           else ParseStream_from unmarshal grow reads buffer sent))"

definition ParseStream ::
  "(string \<Rightarrow> json option) \<Rightarrow> (nat \<Rightarrow> nat) \<Rightarrow> (string \<times> read_error) list \<Rightarrow>
   (EventStreamMessage list \<times> stream_end) option" where
  "ParseStream unmarshal grow reads = ParseStream_from unmarshal grow reads ([], 0) []"

text \<open>\<open>ExtractEventInfo\<close>: a missing header reads as the empty string.\<close>

record EventInfo =
  EventType :: string
  ContentType :: string
  MessageType :: string
  InfoPayload :: json

definition header :: "(string \<times> string) list \<Rightarrow> string \<Rightarrow> string" where
  "header headers k = (case map_of headers k of Some v \<Rightarrow> v | None \<Rightarrow> [])"

definition ExtractEventInfo :: "EventStreamMessage \<Rightarrow> EventInfo" where
  "ExtractEventInfo message =
     (let headers = Headers message;
          eventType = header headers '':event-type'';
          eventType = (if eventType = [] then header headers ''event-type'' else eventType);
          contentType = header headers '':content-type'';
          contentType = (if contentType = [] then header headers ''content-type'' else contentType);
          messageType = header headers '':message-type'';
          messageType = (if messageType = [] then header headers ''message-type'' else messageType)
      in \<lparr> EventType = eventType, ContentType = contentType, MessageType = messageType,
           InfoPayload = Payload message \<rparr>)"

text \<open>
  \<open>ProcessEventStream\<close> on the messages received from the channel: every message with a
  non-empty event type is handled, then \<open>Finish\<close> is called.
\<close>

definition ProcessEventStream ::
  "string \<Rightarrow> (json \<Rightarrow> string) \<Rightarrow> EventStreamMessage list \<Rightarrow> ClaudeStreamHandler \<Rightarrow> sse list" where
  "ProcessEventStream mid marshal messages handler =
     run_finish mid marshal handler
       (map (\<lambda>i. (EventType i, InfoPayload i))
          (filter (\<lambda>i. EventType i \<noteq> []) (map ExtractEventInfo messages)))"

text \<open>
  Frames for the examples. \<open>empty_frame\<close> is well formed: total length 16, no headers, no
  payload. \<open>inconsistent_frame\<close> declares total length 16 and a headers length of 8, so
  its headers would end at offset 20, past the payload end at offset 12.
  \<open>zero_length_prelude\<close> declares total length 0.
\<close>

definition empty_frame :: string where
  "empty_frame =
     [CHR 0x00, CHR 0x00, CHR 0x00, CHR 0x10, CHR 0x00, CHR 0x00, CHR 0x00, CHR 0x00,
      CHR 0x00, CHR 0x00, CHR 0x00, CHR 0x00, CHR 0x00, CHR 0x00, CHR 0x00, CHR 0x00]"

definition inconsistent_frame :: string where
  "inconsistent_frame =
     [CHR 0x00, CHR 0x00, CHR 0x00, CHR 0x10, CHR 0x00, CHR 0x00, CHR 0x00, CHR 0x08,
      CHR 0x00, CHR 0x00, CHR 0x00, CHR 0x00, CHR 0x00, CHR 0x00, CHR 0x00, CHR 0x00]"

definition zero_length_prelude :: string where
  "zero_length_prelude =
     [CHR 0x00, CHR 0x00, CHR 0x00, CHR 0x00, CHR 0x00, CHR 0x00, CHR 0x00, CHR 0x00,
      CHR 0x00, CHR 0x00, CHR 0x00, CHR 0x00]"


section \<open>The non-streaming aggregator (middleware.go, handleClaudeMessages)\<close>

text \<open>
  The state of the loop of lines 358-430: the sparse block list (\<open>JNull\<close> for an unset
  slot), the usage counters and the stop reason.
\<close>

record aggregate =
  finalContent :: "json list"
  usage :: "(string \<times> int) list"
  stopReason :: "string option"

definition initial_aggregate :: aggregate where
  "initial_aggregate =
     \<lparr> finalContent = [], usage = [(''input_tokens'', 0), (''output_tokens'', 0)],
       stopReason = None \<rparr>"

text \<open>\<open>int(data["index"].(float64))\<close>: the assertion panics (\<open>None\<close>) unless the value is a number.\<close>

definition index_of :: "(string \<times> json) list \<Rightarrow> int option" where
  "index_of data = (case field data ''index'' of JNum i \<Rightarrow> Some i | _ \<Rightarrow> None)"

text \<open>\<open>finalContent[idx]\<close>: an index out of range panics (\<open>None\<close>).\<close>

definition block_at :: "json list \<Rightarrow> int \<Rightarrow> json option" where
  "block_at content idx =
     (if 0 \<le> idx \<and> nat idx < length content then Some (content ! nat idx) else None)"

text \<open>Lines 379-384: content_block_start.\<close>

definition on_block_start :: "aggregate \<Rightarrow> (string \<times> json) list \<Rightarrow> aggregate go_result" where
  "on_block_start st data =
     (case index_of data of
        None \<Rightarrow> Panic
      | Some idx \<Rightarrow>
          (let content = finalContent st;
               content = content @ replicate (nat (idx + 1 - int (length content))) JNull
           in if idx < 0 then Panic
              else Ok (st\<lparr>finalContent := content[nat idx := field data ''content_block'']\<rparr>)))"

text \<open>Lines 385-401: content_block_delta.\<close>

definition on_block_delta :: "aggregate \<Rightarrow> (string \<times> json) list \<Rightarrow> aggregate go_result" where
  "on_block_delta st data =
     (case index_of data of
        None \<Rightarrow> Panic
      | Some idx \<Rightarrow>
          (case field data ''delta'' of
             JObj delta \<Rightarrow>
               (case block_at (finalContent st) idx of
                  None \<Rightarrow> Panic
                | Some JNull \<Rightarrow> Ok st
                | Some (JObj block) \<Rightarrow>
                    (if field delta ''type'' = JStr ''text_delta'' then
                       (case field delta ''text'' of
                          JStr text \<Rightarrow>
                            (let currentText = str_or_empty (field block ''text'');
                                 block = AList.update ''text'' (JStr (currentText @ text)) block
                             in Ok (st\<lparr>finalContent := (finalContent st)[nat idx := JObj block]\<rparr>))
                        | _ \<Rightarrow> Ok st)
                     else if field delta ''type'' = JStr ''input_json_delta'' then
                       (case field delta ''partial_json'' of
                          JStr partialJSON \<Rightarrow>
                            (let currentJSON = str_or_empty (field block ''partial_json'');
                                 block = AList.update ''partial_json''
                                           (JStr (currentJSON @ partialJSON)) block
                             in Ok (st\<lparr>finalContent := (finalContent st)[nat idx := JObj block]\<rparr>))
                        | _ \<Rightarrow> Ok st)
                     else Ok st)
                | Some _ \<Rightarrow> Panic)
           | _ \<Rightarrow> Panic))"

text \<open>
  Lines 402-415: content_block_stop. \<open>json.Unmarshal\<close> of the accumulated text into a
  \<open>map[string]interface{}\<close> is the parameter \<open>unmarshal\<close>: the value stored under
  \<open>input\<close> when it succeeds, \<open>None\<close> when it returns an error.
\<close>

definition on_block_stop ::
  "(string \<Rightarrow> json option) \<Rightarrow> aggregate \<Rightarrow> (string \<times> json) list \<Rightarrow> aggregate go_result" where
  "on_block_stop unmarshal st data =
     (case index_of data of
        None \<Rightarrow> Panic
      | Some idx \<Rightarrow>
          (case block_at (finalContent st) idx of
             None \<Rightarrow> Panic
           | Some JNull \<Rightarrow> Ok st
           | Some (JObj block) \<Rightarrow>
               (if field block ''type'' = JStr ''tool_use'' then
                  (case field block ''partial_json'' of
                     JStr partialJSON \<Rightarrow>
                       (let block = (case unmarshal partialJSON of
                                       Some input \<Rightarrow> AList.update ''input'' input block
                                     | None \<Rightarrow> block);
                            block = AList.delete ''partial_json'' block
                        in Ok (st\<lparr>finalContent := (finalContent st)[nat idx := JObj block]\<rparr>))
                   | _ \<Rightarrow> Ok st)
                else Ok st)
           | Some _ \<Rightarrow> Panic))"

text \<open>
  Lines 416-429: message_delta. The loop over the usage map visits each key once
  (\<open>clearjunk\<close> keeps the binding that \<open>map_of\<close> reads).
\<close>

definition on_message_delta :: "aggregate \<Rightarrow> (string \<times> json) list \<Rightarrow> aggregate" where
  "on_message_delta st data =
     (let st = (case field data ''usage'' of
                  JObj usageData \<Rightarrow>
                    st\<lparr>usage := fold (\<lambda>kv u. case snd kv of
                                               JNum val \<Rightarrow> AList.update (fst kv) val u
                                             | _ \<Rightarrow> u)
                                      (AList.clearjunk usageData) (usage st)\<rparr>
                | _ \<Rightarrow> st)
      in case field data ''delta'' of
           JObj delta \<Rightarrow>
             (case field delta ''stop_reason'' of
                JStr sr \<Rightarrow> st\<lparr>stopReason := Some sr\<rparr>
              | _ \<Rightarrow> st)
         | _ \<Rightarrow> st)"

text \<open>
  One outgoing string. Its first \<open>data:\<close> line is the first record's JSON; what is not a
  JSON object there is skipped (line 374), read back as the value that was serialised.
\<close>

definition aggregate_event ::
  "(string \<Rightarrow> json option) \<Rightarrow> aggregate \<Rightarrow> sse \<Rightarrow> aggregate go_result" where
  "aggregate_event unmarshal st sseEvent =
     (case sseEvent of
        (name, JObj data) # others \<Rightarrow>
          (let dtype = str_or_empty (field data ''type'')
           in if dtype = ''content_block_start'' then on_block_start st data
              else if dtype = ''content_block_delta'' then on_block_delta st data
              else if dtype = ''content_block_stop'' then on_block_stop unmarshal st data
              else if dtype = ''message_delta'' then Ok (on_message_delta st data)
              else Ok st)
      | _ \<Rightarrow> Ok st)"

fun aggregate_events ::
  "(string \<Rightarrow> json option) \<Rightarrow> aggregate \<Rightarrow> sse list \<Rightarrow> aggregate go_result" where
  "aggregate_events unmarshal st [] = Ok st"
| "aggregate_events unmarshal st (e # es) =
     (case aggregate_event unmarshal st e of
        Ok st' \<Rightarrow> aggregate_events unmarshal st' es
      | Err x \<Rightarrow> Err x
      | Panic \<Rightarrow> Panic)"

text \<open>
  Lines 432-449: the response object. A nil \<open>filteredContent\<close> is serialised as
  \<open>null\<close>; the random part of the id is the parameter \<open>uuid\<close>.
\<close>

definition aggregate_response :: "string \<Rightarrow> string \<Rightarrow> aggregate \<Rightarrow> json" where
  "aggregate_response uuid model st =
     (let filteredContent = filter (\<lambda>item. item \<noteq> JNull) (finalContent st)
      in JObj
           [(''id'', JStr (''msg_'' @ uuid)),
            (''type'', JStr ''message''),
            (''role'', JStr ''assistant''),
            (''model'', JStr model),
            (''content'', if filteredContent = [] then JNull else JArr filteredContent),
            (''stop_reason'', case stopReason st of None \<Rightarrow> JNull | Some sr \<Rightarrow> JStr sr),
            (''stop_sequence'', JNull),
            (''usage'', JObj (map (\<lambda>kv. (fst kv, JNum (snd kv))) (usage st)))])"

text \<open>
  For the closed examples: a parser that agrees with \<open>json.Unmarshal\<close> on the two texts
  they use. It reads \<open>{}\<close> as the empty object and rejects the truncated text \<open>{\<close>.
\<close>

definition accept_empty_object :: "string \<Rightarrow> json option" where
  "accept_empty_object s = (if s = ''{}'' then Some (JObj []) else None)"


section \<open>The request transcoder (package core: types and converter)\<close>

text \<open>
  The structs of the two request schemas. Several of them share field names, so every
  field carries a prefix naming its struct. A nil slice is the empty list, a nil pointer
  is \<open>None\<close>, and an \<open>interface{}\<close> decoded from JSON is a \<open>json\<close> value. The
  \<open>Temperature\<close> of a request (a float the converter never reads) is left out.
\<close>

record ClaudeMessage =
  msg_Role :: string
  msg_Content :: json

record ClaudeTool =
  tool_Name :: string
  tool_Description :: string
  tool_InputSchema :: json

record ThinkingConfig =
  th_Type :: string
  th_BudgetTokens :: int

record ClaudeRequest =
  req_Model :: string
  req_Messages :: "ClaudeMessage list"
  req_MaxTokens :: int
  req_Tools :: "ClaudeTool list"
  req_Stream :: bool
  req_System :: json
  req_Thinking :: "ThinkingConfig option"

record EnvState =
  env_OperatingSystem :: string
  env_CurrentWorkingDirectory :: string

record ToolSpecification =
  spec_Name :: string
  spec_Description :: string
  spec_InputSchema :: json

record AmazonQTool =
  aqt_ToolSpecification :: ToolSpecification

record ToolResultContent =
  trc_Text :: string

record ToolResult =
  tr_ToolUseID :: string
  tr_Content :: "ToolResultContent list"
  tr_Status :: string

record ImageBytes =
  ib_Bytes :: string

record AmazonQImage =
  img_Format :: string
  img_Source :: ImageBytes

record UserInputMessageContext =
  ctx_EnvState :: EnvState
  ctx_Tools :: "AmazonQTool list"
  ctx_ToolResults :: "ToolResult list"

record UserInputMessage =
  uim_Content :: string
  uim_Context :: UserInputMessageContext
  uim_Origin :: string
  uim_ModelID :: string
  uim_Images :: "AmazonQImage list"

record ToolUse =
  tu_ToolUseID :: string
  tu_Name :: string
  tu_Input :: json

record AssistantResponseMessage =
  arm_MessageID :: string
  arm_Content :: string
  arm_ToolUses :: "ToolUse list"

record HistoryEntry =
  he_UserInputMessage :: "UserInputMessage option"
  he_AssistantResponseMessage :: "AssistantResponseMessage option"

record CurrentMessage =
  cm_UserInputMessage :: UserInputMessage

record ConversationState =
  cs_ConversationID :: string
  cs_History :: "HistoryEntry list"
  cs_CurrentMessage :: CurrentMessage
  cs_ChatTriggerType :: string

record AmazonQRequest =
  aq_ConversationState :: ConversationState

subsection \<open>Library functions of Go\<close>

text \<open>\<open>strings.Join\<close>, \<open>strings.HasSuffix\<close> and \<open>strconv.Itoa\<close>.\<close>

fun strings_Join :: "string list \<Rightarrow> string \<Rightarrow> string" where
  "strings_Join [] sep = []"
| "strings_Join [x] sep = x"
| "strings_Join (x # y # ys) sep = x @ sep @ strings_Join (y # ys) sep"

definition HasSuffix :: "string \<Rightarrow> string \<Rightarrow> bool" where
  "HasSuffix s suf = suffix suf s"

fun nat_digits :: "nat \<Rightarrow> string" where
  "nat_digits n =
     (if n < 10 then [char_of (48 + n)]
      else nat_digits (n div 10) @ [char_of (48 + n mod 10)])"

definition Itoa :: "int \<Rightarrow> string" where
  "Itoa i = (if i < 0 then CHR ''-'' # nat_digits (nat (- i)) else nat_digits (nat i))"

text \<open>
  \<open>strings.TrimSpace\<close> removes leading and trailing Unicode white space
  (\<open>unicode.IsSpace\<close>). On the bytes of a string these are tab, line feed, vertical tab,
  form feed, carriage return and space, and the UTF-8 encodings of U+0085, U+00A0,
  U+1680, U+2000 to U+200A, U+2028, U+2029, U+202F, U+205F and U+3000. Go decodes one
  rune at a time from the left (\<open>TrimLeftFunc\<close>), then from the right
  (\<open>TrimRightFunc\<close>); a rune is white space exactly when the bytes met are one of
  these encodings, and ill-formed bytes decode to U+FFFD, which is not white space.
\<close>

definition space_encodings :: "string list" where
  "space_encodings =
     [[CHR 0x09], [CHR 0x0A], [CHR 0x0B], [CHR 0x0C], [CHR 0x0D], [CHR 0x20],
      [CHR 0xC2, CHR 0x85], [CHR 0xC2, CHR 0xA0],
      [CHR 0xE1, CHR 0x9A, CHR 0x80],
      [CHR 0xE2, CHR 0x80, CHR 0x80], [CHR 0xE2, CHR 0x80, CHR 0x81],
      [CHR 0xE2, CHR 0x80, CHR 0x82], [CHR 0xE2, CHR 0x80, CHR 0x83],
      [CHR 0xE2, CHR 0x80, CHR 0x84], [CHR 0xE2, CHR 0x80, CHR 0x85],
      [CHR 0xE2, CHR 0x80, CHR 0x86], [CHR 0xE2, CHR 0x80, CHR 0x87],
      [CHR 0xE2, CHR 0x80, CHR 0x88], [CHR 0xE2, CHR 0x80, CHR 0x89],
      [CHR 0xE2, CHR 0x80, CHR 0x8A],
      [CHR 0xE2, CHR 0x80, CHR 0xA8], [CHR 0xE2, CHR 0x80, CHR 0xA9],
      [CHR 0xE2, CHR 0x80, CHR 0xAF],
      [CHR 0xE2, CHR 0x81, CHR 0x9F],
      [CHR 0xE3, CHR 0x80, CHR 0x80]]"

text \<open>The length of the white-space rune a string begins with, and of the one it ends with; 0 when there is none.\<close>

definition leading_space :: "string \<Rightarrow> nat" where
  "leading_space s =
     (case find (\<lambda>e. prefix e s) space_encodings of Some e \<Rightarrow> length e | None \<Rightarrow> 0)"

definition trailing_space :: "string \<Rightarrow> nat" where
  "trailing_space s =
     (case find (\<lambda>e. suffix e s) space_encodings of Some e \<Rightarrow> length e | None \<Rightarrow> 0)"

lemma leading_space_le: "leading_space s \<le> length s"
  by (auto simp: leading_space_def find_Some_iff prefix_def split: option.splits)

lemma trailing_space_le: "trailing_space s \<le> length s"
  by (auto simp: trailing_space_def find_Some_iff suffix_def split: option.splits)

function TrimLeft :: "string \<Rightarrow> string" where
  "TrimLeft s = (if leading_space s = 0 then s else TrimLeft (drop (leading_space s) s))"
  by pat_completeness auto
termination
proof (relation "measure length")
  show "wf (measure length)"
    by simp
next
  fix s :: string
  assume "leading_space s \<noteq> 0"
  then show "(drop (leading_space s) s, s) \<in> measure length"
    using leading_space_le[of s] by simp
qed

function TrimRight :: "string \<Rightarrow> string" where
  "TrimRight s =
     (if trailing_space s = 0 then s else TrimRight (take (length s - trailing_space s) s))"
  by pat_completeness auto
termination
proof (relation "measure length")
  show "wf (measure length)"
    by simp
next
  fix s :: string
  assume "trailing_space s \<noteq> 0"
  then show "(take (length s - trailing_space s) s, s) \<in> measure length"
    using trailing_space_le[of s] by simp
qed

declare TrimLeft.simps [simp del] TrimRight.simps [simp del]

definition TrimSpace :: "string \<Rightarrow> string" where
  "TrimSpace s = TrimRight (TrimLeft s)"

text \<open>
  \<open>strings.ToLower\<close> is used once, to compare the lowered thinking type with
  \<open>enabled\<close>. The letters A to Z are lowered; every other byte is kept. Go's result
  differs only on strings with bytes outside ASCII, and such a string is lowered to
  \<open>enabled\<close> by neither: the only runes outside ASCII that Go lowers into ASCII are
  U+0130 and U+212A, to the letters i and k.
\<close>

definition lower_char :: "char \<Rightarrow> char" where
  "lower_char c =
     (if 65 \<le> (of_char c :: nat) \<and> (of_char c :: nat) \<le> 90
      then char_of ((of_char c :: nat) + 32) else c)"

definition ToLower :: "string \<Rightarrow> string" where
  "ToLower s = map lower_char s"

subsection \<open>Thinking mode\<close>

definition IsThinkingModeEnabled :: "ThinkingConfig option \<Rightarrow> bool" where
  "IsThinkingModeEnabled thinking =
     (case thinking of None \<Rightarrow> False | Some t \<Rightarrow> ToLower (th_Type t) = ''enabled'')"

definition GetThinkingBudgetTokens :: "ThinkingConfig option \<Rightarrow> int" where
  "GetThinkingBudgetTokens thinking =
     (case thinking of
        None \<Rightarrow> 16000
      | Some t \<Rightarrow> if th_BudgetTokens t \<le> 0 then 16000 else th_BudgetTokens t)"

definition BuildThinkingHint :: "int \<Rightarrow> string" where
  "BuildThinkingHint budgetTokens =
     ''<thinking_mode>interleaved</thinking_mode><max_thinking_length>'' @ Itoa budgetTokens @
     ''</max_thinking_length>''"

definition AppendThinkingHint :: "string \<Rightarrow> string \<Rightarrow> string" where
  "AppendThinkingHint text hint =
     (let normalized = TrimSpace text
      in if HasSuffix normalized hint then text
         else if text = [] then hint
         else
           (let separator =
                  (if \<not> HasSuffix text ''\<newline>'' \<and> \<not> HasSuffix text [CHR 0x0D]
                   then ''\<newline>'' else [])
            in text @ separator @ hint))"

subsection \<open>Reading the content of a message\<close>

definition ContainsToolContent :: "json \<Rightarrow> bool" where
  "ContainsToolContent content =
     (case content of
        JArr contentList \<Rightarrow>
          list_ex (\<lambda>block. case block of
                     JObj blockMap \<Rightarrow>
                       (let btype = str_or_empty (field blockMap ''type'')
                        in btype = ''tool_result'' \<or> btype = ''tool_use'')
                   | _ \<Rightarrow> False) contentList
      | _ \<Rightarrow> False)"

text \<open>The text of a block of type \<open>text\<close> whose \<open>text\<close> field is a string.\<close>

definition text_of_block :: "json \<Rightarrow> string option" where
  "text_of_block block =
     (case block of
        JObj blockMap \<Rightarrow>
          (if field blockMap ''type'' = JStr ''text'' then
             (case field blockMap ''text'' of JStr text \<Rightarrow> Some text | _ \<Rightarrow> None)
           else None)
      | _ \<Rightarrow> None)"

definition ExtractTextFromContent :: "json \<Rightarrow> string" where
  "ExtractTextFromContent content =
     (case content of
        JStr v \<Rightarrow> v
      | JArr v \<Rightarrow> strings_Join (List.map_filter text_of_block v) ''\<newline>''
      | _ \<Rightarrow> [])"

text \<open>Lines 280-307: the image of a block of type \<open>image\<close> with a base64 source.\<close>

definition image_of_block :: "json \<Rightarrow> AmazonQImage option" where
  "image_of_block block =
     (case block of
        JObj blockMap \<Rightarrow>
          (if field blockMap ''type'' = JStr ''image'' then
             (case field blockMap ''source'' of
                JObj source \<Rightarrow>
                  (if field source ''type'' = JStr ''base64'' then
                     (let mediaType = (case field source ''media_type'' of
                                         JStr mt \<Rightarrow> mt | _ \<Rightarrow> ''image/png'');
                          format = (if CHR ''/'' \<in> set mediaType
                                    then rev (takeWhile (\<lambda>c. c \<noteq> CHR ''/'') (rev mediaType))
                                    else ''png'');
                          data = str_or_empty (field source ''data'')
                      in Some \<lparr> img_Format = format, img_Source = \<lparr> ib_Bytes = data \<rparr> \<rparr>)
                   else None)
              | _ \<Rightarrow> None)
           else None)
      | _ \<Rightarrow> None)"

definition ExtractImagesFromContent :: "json \<Rightarrow> AmazonQImage list" where
  "ExtractImagesFromContent content =
     (case content of
        JArr contentList \<Rightarrow> List.map_filter image_of_block contentList
      | _ \<Rightarrow> [])"

subsection \<open>Tool results\<close>

text \<open>Lines 323-341: the content entries of a tool_result block.\<close>

definition tool_result_content :: "json \<Rightarrow> ToolResultContent list" where
  "tool_result_content rawContent =
     (case rawContent of
        JStr content \<Rightarrow> [\<lparr> trc_Text = content \<rparr>]
      | JArr content \<Rightarrow>
          List.map_filter
            (\<lambda>item. case item of
               JObj v \<Rightarrow>
                 (if field v ''type'' = JStr ''text'' then
                    (case field v ''text'' of
                       JStr text \<Rightarrow> Some \<lparr> trc_Text = text \<rparr> | _ \<Rightarrow> None)
                  else
                    (case field v ''text'' of
                       JStr text \<Rightarrow> Some \<lparr> trc_Text = text \<rparr> | _ \<Rightarrow> None))
             | JStr v \<Rightarrow> Some \<lparr> trc_Text = v \<rparr>
             | _ \<Rightarrow> None) content
      | _ \<Rightarrow> [])"

text \<open>Lines 361-377: the content joins the first result with the same id, else a new result is appended.\<close>

fun add_tool_result :: "string \<Rightarrow> ToolResultContent list \<Rightarrow> string \<Rightarrow> ToolResult list \<Rightarrow> ToolResult list" where
  "add_tool_result toolUseID aqContent status [] =
     [\<lparr> tr_ToolUseID = toolUseID, tr_Content = aqContent, tr_Status = status \<rparr>]"
| "add_tool_result toolUseID aqContent status (r # rs) =
     (if tr_ToolUseID r = toolUseID then r\<lparr>tr_Content := tr_Content r @ aqContent\<rparr> # rs
      else r # add_tool_result toolUseID aqContent status rs)"

definition ProcessToolResultBlock :: "(string \<times> json) list \<Rightarrow> ToolResult list \<Rightarrow> ToolResult list" where
  "ProcessToolResultBlock block toolResults =
     (let toolUseID = str_or_empty (field block ''tool_use_id'');
          aqContent = tool_result_content (field block ''content'');
          hasContent = list_ex (\<lambda>c. TrimSpace (trc_Text c) \<noteq> []) aqContent;
          aqContent = (if \<not> hasContent
                       then [\<lparr> trc_Text = ''Tool use was cancelled by the user'' \<rparr>]
                       else aqContent);
          status = (case field block ''status'' of JStr s \<Rightarrow> s | _ \<Rightarrow> ''success'')
      in add_tool_result toolUseID aqContent status toolResults)"

text \<open>
  The loop that reads a user message's block list (lines 476-487 and 630-642, the same
  statements): the text parts, the tool results, and whether a tool_result block was
  seen.
\<close>

fun read_user_blocks ::
  "json list \<Rightarrow> string list \<times> ToolResult list \<times> bool \<Rightarrow> string list \<times> ToolResult list \<times> bool" where
  "read_user_blocks [] acc = acc"
| "read_user_blocks (block # blocks) (textParts, toolResults, hasToolResult) =
     (case block of
        JObj blockMap \<Rightarrow>
          (let btype = str_or_empty (field blockMap ''type'')
           in if btype = ''text'' then
                (case field blockMap ''text'' of
                   JStr text \<Rightarrow>
                     read_user_blocks blocks (textParts @ [text], toolResults, hasToolResult)
                 | _ \<Rightarrow> read_user_blocks blocks (textParts, toolResults, hasToolResult))
              else if btype = ''tool_result'' then
                read_user_blocks blocks
                  (textParts, ProcessToolResultBlock blockMap toolResults, True)
              else read_user_blocks blocks (textParts, toolResults, hasToolResult))
      | _ \<Rightarrow> read_user_blocks blocks (textParts, toolResults, hasToolResult))"

text \<open>Lines 474-491 and 628-646: the text, the tool results and the flag of a user message.\<close>

definition read_user_content :: "json \<Rightarrow> string \<times> ToolResult list \<times> bool" where
  "read_user_content content =
     (case content of
        JArr contentList \<Rightarrow>
          (case read_user_blocks contentList ([], [], False) of
             (textParts, toolResults, hasToolResult) \<Rightarrow>
               (strings_Join textParts ''\<newline>'', toolResults, hasToolResult))
      | _ \<Rightarrow> (ExtractTextFromContent content, [], False))"

subsection \<open>Tools\<close>

definition truncation_pointer :: string where
  "truncation_pointer =
     ''\<newline>\<newline>...(Full description provided in TOOL DOCUMENTATION section)''"

definition ConvertTool :: "ClaudeTool \<Rightarrow> AmazonQTool" where
  "ConvertTool tool =
     (let desc = tool_Description tool;
          desc = (if length desc > 10240 then take 10100 desc @ truncation_pointer else desc)
      in \<lparr> aqt_ToolSpecification =
             \<lparr> spec_Name = tool_Name tool,
               spec_Description = desc,
               spec_InputSchema = JObj [(''json'', tool_InputSchema tool)] \<rparr> \<rparr>)"

subsection \<open>History\<close>

definition default_env :: EnvState where
  "default_env = \<lparr> env_OperatingSystem = ''macos'', env_CurrentWorkingDirectory = ''/'' \<rparr>"

text \<open>The zero value \<open>UserInputMessage{}\<close>.\<close>

definition zero_UserInputMessage :: UserInputMessage where
  "zero_UserInputMessage =
     \<lparr> uim_Content = [],
       uim_Context = \<lparr> ctx_EnvState = \<lparr> env_OperatingSystem = [], env_CurrentWorkingDirectory = [] \<rparr>,
                       ctx_Tools = [], ctx_ToolResults = [] \<rparr>,
       uim_Origin = [], uim_ModelID = [], uim_Images = [] \<rparr>"

definition MergeUserMessages :: "UserInputMessage list \<Rightarrow> UserInputMessage" where
  "MergeUserMessages messages =
     (case messages of
        [] \<Rightarrow> zero_UserInputMessage
      | first # _ \<Rightarrow>
          (let allContents = filter (\<lambda>c. c \<noteq> []) (map uim_Content messages);
               allImages = filter (\<lambda>images. length images > 0) (map uim_Images messages);
               keptImages = concat (drop (length allImages - 2) allImages)
           in \<lparr> uim_Content = strings_Join allContents ''\<newline>\<newline>'',
                uim_Context = uim_Context first,
                uim_Origin = uim_Origin first,
                uim_ModelID = uim_ModelID first,
                uim_Images = keptImages \<rparr>))"

text \<open>Lines 467-518: a user message of the history, converted on its own.\<close>

definition convert_user_message :: "bool \<Rightarrow> string \<Rightarrow> json \<Rightarrow> UserInputMessage" where
  "convert_user_message thinkingEnabled thinkingHint content =
     (let images = ExtractImagesFromContent content;
          shouldAppendHint = (thinkingEnabled \<and> \<not> ContainsToolContent content);
          (textContent, toolResults, hasToolResult) = read_user_content content;
          textContent = (if shouldAppendHint then AppendThinkingHint textContent thinkingHint
                         else textContent)
      in \<lparr> uim_Content = textContent,
           uim_Context = \<lparr> ctx_EnvState = default_env, ctx_Tools = [],
                           ctx_ToolResults = toolResults \<rparr>,
           uim_Origin = ''CLI'', uim_ModelID = [], uim_Images = images \<rparr>)"

text \<open>
  Lines 533-552: the tool uses of an assistant message; an id seen in an earlier tool_use
  block of the history (the set \<open>seen\<close>) is skipped.
\<close>

fun read_tool_uses :: "json list \<Rightarrow> string set \<times> ToolUse list \<Rightarrow> string set \<times> ToolUse list" where
  "read_tool_uses [] acc = acc"
| "read_tool_uses (block # blocks) (seen, toolUses) =
     (case block of
        JObj blockMap \<Rightarrow>
          (if field blockMap ''type'' = JStr ''tool_use'' then
             (let tid = str_or_empty (field blockMap ''id'')
              in if tid \<noteq> [] \<and> tid \<notin> seen then
                   (let name = str_or_empty (field blockMap ''name'');
                        input = (case field blockMap ''input'' of
                                   JObj inp \<Rightarrow> JObj inp | _ \<Rightarrow> JObj [])
                    in read_tool_uses blocks
                         (insert tid seen,
                          toolUses @ [\<lparr> tu_ToolUseID = tid, tu_Name = name, tu_Input = input \<rparr>]))
                 else read_tool_uses blocks (seen, toolUses))
           else read_tool_uses blocks (seen, toolUses))
      | _ \<Rightarrow> read_tool_uses blocks (seen, toolUses))"

text \<open>
  The first pass of \<open>ProcessHistory\<close> (lines 466-560). \<open>uuid.New()\<close> is the parameter
  \<open>uuid\<close>, asked for its \<open>k\<close>-th value; messages of another role are skipped.
\<close>

fun convert_messages ::
  "(nat \<Rightarrow> string) \<Rightarrow> bool \<Rightarrow> string \<Rightarrow> ClaudeMessage list \<Rightarrow> string set \<Rightarrow> nat \<Rightarrow> HistoryEntry list" where
  "convert_messages uuid thinkingEnabled thinkingHint [] seen k = []"
| "convert_messages uuid thinkingEnabled thinkingHint (msg # msgs) seen k =
     (if msg_Role msg = ''user'' then
        \<lparr> he_UserInputMessage =
            Some (convert_user_message thinkingEnabled thinkingHint (msg_Content msg)),
          he_AssistantResponseMessage = None \<rparr>
        # convert_messages uuid thinkingEnabled thinkingHint msgs seen k
      else if msg_Role msg = ''assistant'' then
        (let content = msg_Content msg;
             textContent = ExtractTextFromContent content;
             (seen, toolUses) = (case content of
                                   JArr contentList \<Rightarrow> read_tool_uses contentList (seen, [])
                                 | _ \<Rightarrow> (seen, []))
         in \<lparr> he_UserInputMessage = None,
              he_AssistantResponseMessage =
                Some \<lparr> arm_MessageID = uuid k, arm_Content = textContent,
                       arm_ToolUses = toolUses \<rparr> \<rparr>
            # convert_messages uuid thinkingEnabled thinkingHint msgs seen (Suc k))
      else convert_messages uuid thinkingEnabled thinkingHint msgs seen k)"

text \<open>
  The second pass (lines 562-580): user entries are collected in \<open>pending\<close>; an assistant
  entry, or the end of the list, turns the pending ones into one merged entry.
\<close>

definition user_entry :: "UserInputMessage \<Rightarrow> HistoryEntry" where
  "user_entry m = \<lparr> he_UserInputMessage = Some m, he_AssistantResponseMessage = None \<rparr>"

definition flush_pending :: "UserInputMessage list \<Rightarrow> HistoryEntry list" where
  "flush_pending pendingUserMsgs =
     (if length pendingUserMsgs > 0 then [user_entry (MergeUserMessages pendingUserMsgs)] else [])"

fun merge_history :: "UserInputMessage list \<Rightarrow> HistoryEntry list \<Rightarrow> HistoryEntry list" where
  "merge_history pendingUserMsgs [] = flush_pending pendingUserMsgs"
| "merge_history pendingUserMsgs (item # items) =
     (case he_UserInputMessage item of
        Some m \<Rightarrow> merge_history (pendingUserMsgs @ [m]) items
      | None \<Rightarrow>
          (case he_AssistantResponseMessage item of
             Some a \<Rightarrow> flush_pending pendingUserMsgs @ item # merge_history [] items
           | None \<Rightarrow> merge_history pendingUserMsgs items))"

definition ProcessHistory ::
  "(nat \<Rightarrow> string) \<Rightarrow> nat \<Rightarrow> ClaudeMessage list \<Rightarrow> bool \<Rightarrow> string \<Rightarrow> HistoryEntry list" where
  "ProcessHistory uuid k messages thinkingEnabled thinkingHint =
     merge_history [] (convert_messages uuid thinkingEnabled thinkingHint messages {} k)"

subsection \<open>The request\<close>

text \<open>Lines 603-609: name and full description of every tool whose description is over 10240 bytes long.\<close>

definition long_desc_tools :: "ClaudeTool list \<Rightarrow> (string \<times> string) list" where
  "long_desc_tools tools =
     map (\<lambda>t. (tool_Name t, tool_Description t))
         (filter (\<lambda>t. length (tool_Description t) > 10240) tools)"

text \<open>
  Lines 624-652: the prompt of the current (last) message, its tool results, the
  tool-result flag and its images; then the thinking hint.
\<close>

definition current_prompt ::
  "bool \<Rightarrow> string \<Rightarrow> ClaudeMessage option \<Rightarrow> string \<times> ToolResult list \<times> bool \<times> AmazonQImage list" where
  "current_prompt thinkingEnabled thinkingHint lastMsg =
     (let (promptContent, toolResults, hasToolResult, images) =
            (case lastMsg of
               Some m \<Rightarrow>
                 (if msg_Role m = ''user'' then
                    (case read_user_content (msg_Content m) of
                       (promptContent, toolResults, hasToolResult) \<Rightarrow>
                         (promptContent, toolResults, hasToolResult,
                          ExtractImagesFromContent (msg_Content m)))
                  else ([], [], False, []))
             | None \<Rightarrow> ([], [], False, []));
          promptContent =
            (case lastMsg of
               Some m \<Rightarrow>
                 (if thinkingEnabled \<and> \<not> ContainsToolContent (msg_Content m)
                  then AppendThinkingHint promptContent thinkingHint else promptContent)
             | None \<Rightarrow> promptContent)
      in (promptContent, toolResults, hasToolResult, images))"

text \<open>Lines 669-678: the prompt between the context entry and the user-message delimiters; \<open>now\<close> is \<open>GetCurrentTimestamp()\<close>.\<close>

definition user_message_section :: "string \<Rightarrow> bool \<Rightarrow> string \<Rightarrow> string" where
  "user_message_section now hasToolResult promptContent =
     (if hasToolResult \<and> promptContent = [] then []
      else ''--- CONTEXT ENTRY BEGIN ---\<newline>Current time: '' @ now @
           ''\<newline>--- CONTEXT ENTRY END ---\<newline>\<newline>--- USER MESSAGE BEGIN ---\<newline>'' @
           promptContent @ ''\<newline>--- USER MESSAGE END ---'')"

text \<open>Lines 680-690: the TOOL DOCUMENTATION block, put in front when a description was truncated.\<close>

definition tool_doc_entry :: "string \<times> string \<Rightarrow> string" where
  "tool_doc_entry info =
     ''Tool: '' @ fst info @ ''\<newline>Full Description:\<newline>'' @ snd info @ ''\<newline>''"

definition with_tool_documentation :: "(string \<times> string) list \<Rightarrow> string \<Rightarrow> string" where
  "with_tool_documentation longDescTools formattedContent =
     (if length longDescTools > 0 then
        ''--- TOOL DOCUMENTATION BEGIN ---\<newline>'' @
        strings_Join (map tool_doc_entry longDescTools) [] @
        ''--- TOOL DOCUMENTATION END ---\<newline>\<newline>'' @ formattedContent
      else formattedContent)"

text \<open>Lines 692-718: the SYSTEM PROMPT block.\<close>

definition with_system_prompt :: "json \<Rightarrow> string \<Rightarrow> string" where
  "with_system_prompt system formattedContent =
     (if system \<noteq> JNull \<and> formattedContent \<noteq> [] then
        (let sysText =
               (case system of
                  JStr sys \<Rightarrow> sys
                | JArr sys \<Rightarrow> strings_Join (List.map_filter text_of_block sys) ''\<newline>''
                | _ \<Rightarrow> [])
         in if sysText \<noteq> [] then
              ''--- SYSTEM PROMPT BEGIN ---\<newline>'' @ sysText @
              ''\<newline>--- SYSTEM PROMPT END ---\<newline>\<newline>'' @ formattedContent
            else formattedContent)
      else formattedContent)"

text \<open>
  \<open>ConvertClaudeToAmazonQRequest\<close>. The error it returns is always nil. \<open>uuid 0\<close> is the
  generated conversation id when none is given; the history takes the following values.
\<close>

definition ConvertClaudeToAmazonQRequest ::
  "(nat \<Rightarrow> string) \<Rightarrow> string \<Rightarrow> ClaudeRequest \<Rightarrow> string \<Rightarrow> AmazonQRequest" where
  "ConvertClaudeToAmazonQRequest uuid now req conversationID =
     (let k = (if conversationID = [] then 1 else 0);
          conversationID = (if conversationID = [] then uuid 0 else conversationID);
          thinkingEnabled = IsThinkingModeEnabled (req_Thinking req);
          budgetTokens = GetThinkingBudgetTokens (req_Thinking req);
          thinkingHint = BuildThinkingHint budgetTokens;
          aqTools = map ConvertTool (req_Tools req);
          longDescTools = long_desc_tools (req_Tools req);
          lastMsg = (if length (req_Messages req) > 0 then Some (last (req_Messages req)) else None);
          (promptContent, toolResults, hasToolResult, images) =
            current_prompt thinkingEnabled thinkingHint lastMsg;
          userCtx = \<lparr> ctx_EnvState = default_env, ctx_Tools = aqTools,
                      ctx_ToolResults = toolResults \<rparr>;
          formattedContent = user_message_section now hasToolResult promptContent;
          formattedContent = with_tool_documentation longDescTools formattedContent;
          formattedContent = with_system_prompt (req_System req) formattedContent;
          userInputMsg = \<lparr> uim_Content = formattedContent, uim_Context = userCtx,
                           uim_Origin = ''CLI'', uim_ModelID = req_Model req,
                           uim_Images = images \<rparr>;
          historyMsgs = (if length (req_Messages req) > 1 then butlast (req_Messages req) else []);
          aqHistory = ProcessHistory uuid k historyMsgs thinkingEnabled thinkingHint
      in \<lparr> aq_ConversationState =
             \<lparr> cs_ConversationID = conversationID,
               cs_History = aqHistory,
               cs_CurrentMessage = \<lparr> cm_UserInputMessage = userInputMsg \<rparr>,
               cs_ChatTriggerType = ''MANUAL'' \<rparr> \<rparr>)"

text \<open>The prompt body of the upstream request: the content of its current message.\<close>

definition request_content :: "AmazonQRequest \<Rightarrow> string" where
  "request_content r = uim_Content (cm_UserInputMessage (cs_CurrentMessage (aq_ConversationState r)))"

definition request_tools :: "AmazonQRequest \<Rightarrow> AmazonQTool list" where
  "request_tools r =
     ctx_Tools (uim_Context (cm_UserInputMessage (cs_CurrentMessage (aq_ConversationState r))))"


text \<open>Values for the closed examples: an image, a user entry of the history, and a tool.\<close>

definition png :: "string \<Rightarrow> AmazonQImage" where
  "png bytes = \<lparr> img_Format = ''png'', img_Source = \<lparr> ib_Bytes = bytes \<rparr> \<rparr>"

definition history_user :: "string \<Rightarrow> AmazonQImage list \<Rightarrow> UserInputMessage" where
  "history_user text images =
     \<lparr> uim_Content = text,
       uim_Context = \<lparr> ctx_EnvState = default_env, ctx_Tools = [], ctx_ToolResults = [] \<rparr>,
       uim_Origin = ''CLI'', uim_ModelID = [], uim_Images = images \<rparr>"

definition assistant_entry :: "AssistantResponseMessage \<Rightarrow> HistoryEntry" where
  "assistant_entry a = \<lparr> he_UserInputMessage = None, he_AssistantResponseMessage = Some a \<rparr>"

definition tool_with_description :: "string \<Rightarrow> string \<Rightarrow> ClaudeTool" where
  "tool_with_description name description =
     \<lparr> tool_Name = name, tool_Description = description, tool_InputSchema = JObj [] \<rparr>"

definition request_with_tools :: "ClaudeTool list \<Rightarrow> ClaudeRequest" where
  "request_with_tools tools =
     \<lparr> req_Model = ''m'',
       req_Messages = [\<lparr> msg_Role = ''user'', msg_Content = JStr ''Hi'' \<rparr>],
       req_MaxTokens = 1024, req_Tools = tools, req_Stream = False, req_System = JNull,
       req_Thinking = None \<rparr>"

definition fixed_uuid :: "nat \<Rightarrow> string" where
  "fixed_uuid k = ''00000000-0000-4000-8000-00000000000'' @ nat_digits (k mod 10)"

definition long_description :: string where
  "long_description = replicate 10300 (CHR ''a'')"

text \<open>
  The length of a description in characters, as the specification counts it: the bytes
  of the UTF-8 string that are not continuation bytes (\<open>10xxxxxx\<close>). The code measures
  with \<open>len\<close>, in bytes. \<open>accented_description\<close> is the letter a followed by 5120 times the
  two-byte letter U+00E9.
\<close>

definition character_count :: "string \<Rightarrow> nat" where
  "character_count s =
     length (filter (\<lambda>c. \<not> (128 \<le> (of_char c :: nat) \<and> (of_char c :: nat) < 192)) s)"

definition accented_description :: string where
  "accented_description = CHR ''a'' # concat (replicate 5120 [CHR 0xC3, CHR 0xA9])"


section \<open>Notions used by the properties of the stream handler\<close>

text \<open>
  In the closed examples below no tool input is a non-string value, so \<open>json.Marshal\<close> is
  never reached; they pass this function for the parameter \<open>marshal\<close>.
\<close>

definition no_marshal :: "json \<Rightarrow> string" where
  "no_marshal v = []"


text \<open>The event that follows the first content_block_start of an output, if there is one.\<close>

definition next_after_first_start :: "sse list \<Rightarrow> sse option" where
  "next_after_first_start out =
     (case dropWhile (\<lambda>e. \<not> is_block_start e) out of
        s # e # rest \<Rightarrow> Some e
      | _ \<Rightarrow> None)"



text \<open>
  What a run has emitted: the text of its text_delta events and the partial JSON of its
  input_json_delta events, each in order of emission.
\<close>

definition text_delta_text :: "sse \<Rightarrow> string" where
  "text_delta_text e =
     (if event_names e = [''content_block_delta''] \<and>
         field (delta_of e) ''type'' = JStr ''text_delta''
      then str_or_empty (field (delta_of e) ''text'') else [])"

definition input_delta_json :: "sse \<Rightarrow> string" where
  "input_delta_json e =
     (if event_names e = [''content_block_delta''] \<and>
         field (delta_of e) ''type'' = JStr ''input_json_delta''
      then str_or_empty (field (delta_of e) ''partial_json'') else [])"

definition emitted_text :: "sse list \<Rightarrow> string" where
  "emitted_text out = concat (map text_delta_text out)"

definition emitted_tool_input :: "sse list \<Rightarrow> string" where
  "emitted_tool_input out = concat (map input_delta_json out)"

text \<open>
  What \<open>Finish\<close> will count, read from the handler: the text appended to
  \<open>ResponseBuffer\<close>, and the tool input that is in \<open>AllToolInputs\<close> or, while a tool call
  is in progress, still in \<open>ToolInputBuffer\<close>. \<open>counted_le h new h'\<close>: from \<open>h\<close> to \<open>h'\<close>
  these grew by no more than the events \<open>new\<close> emitted.
\<close>

definition counted_text :: "ClaudeStreamHandler \<Rightarrow> string" where
  "counted_text h = concat (ResponseBuffer h)"

definition counted_tool_input :: "ClaudeStreamHandler \<Rightarrow> string" where
  "counted_tool_input h =
     concat (AllToolInputs h) @
     (if CurrentToolUse h = None then [] else concat (ToolInputBuffer h))"

definition counted_le :: "ClaudeStreamHandler \<Rightarrow> sse list \<Rightarrow> ClaudeStreamHandler \<Rightarrow> bool" where
  "counted_le h new h' =
     (length (counted_text h') \<le> length (counted_text h) + length (emitted_text new) \<and>
      length (counted_tool_input h') \<le>
        length (counted_tool_input h) + length (emitted_tool_input new))"

definition not_thinking :: "ClaudeStreamHandler \<Rightarrow> bool" where
  "not_thinking h = (\<not> InThinkBlock h \<and> ThinkBuffer h = [])"



text \<open>
  Bookkeeping for the ping. An output is \<open>quiet\<close> when it opens no block and holds no
  ping; \<open>first_ping\<close> holds when its first content_block_start is followed at once by
  a ping and that ping is its only one. \<open>step_ok h new h'\<close> relates the handler before
  and after a stretch of calls that emitted \<open>new\<close>: no message_start is emitted, and a
  pending ping is either still pending (the stretch was quiet) or was sent right after
  the first block opened.
\<close>

definition quiet :: "sse list \<Rightarrow> bool" where
  "quiet new = (\<forall>e\<in>set new. \<not> is_block_start e \<and> \<not> is_ping e)"

fun first_ping :: "sse list \<Rightarrow> bool" where
  "first_ping [] = False"
| "first_ping (e # es) =
     (if is_block_start e
      then (case es of [] \<Rightarrow> False | p # b \<Rightarrow> is_ping p \<and> (\<forall>x\<in>set b. \<not> is_ping x))
      else \<not> is_ping e \<and> first_ping es)"

definition step_ok :: "ClaudeStreamHandler \<Rightarrow> sse list \<Rightarrow> ClaudeStreamHandler \<Rightarrow> bool" where
  "step_ok h new h' =
     ((\<forall>e\<in>set new. \<not> is_message_start e) \<and> MessageStartSent h' = MessageStartSent h \<and>
      (if PingPending h
       then (if PingPending h' then quiet new else first_ping new)
       else (\<forall>e\<in>set new. \<not> is_ping e) \<and> \<not> PingPending h'))"



section \<open>The stream handler: classification of events and invariants of a run\<close>

lemma is_ping_simps [simp]:
  "is_ping BuildPing"
  "\<not> is_ping (BuildContentBlockStart i t)"
  "\<not> is_ping (BuildContentBlockDelta i x)"
  "\<not> is_ping (BuildContentBlockStop i)"
  "\<not> is_ping (BuildToolUseStart i a b)"
  "\<not> is_ping (BuildToolUseInputDelta i x)"
  "\<not> is_ping (fst (BuildMessageStart mid m n))"
  "\<not> is_ping (BuildMessageStop n k r)"
  by (simp_all add: is_ping_def event_names_def FormatSSE_def BuildPing_def
      BuildContentBlockStart_def BuildContentBlockDelta_def BuildContentBlockStop_def
      BuildToolUseStart_def BuildToolUseInputDelta_def BuildMessageStart_def
      BuildMessageStop_def Let_def)

lemma is_block_start_simps [simp]:
  "\<not> is_block_start BuildPing"
  "is_block_start (BuildContentBlockStart i t)"
  "\<not> is_block_start (BuildContentBlockDelta i x)"
  "\<not> is_block_start (BuildContentBlockStop i)"
  "is_block_start (BuildToolUseStart i a b)"
  "\<not> is_block_start (BuildToolUseInputDelta i x)"
  "\<not> is_block_start (fst (BuildMessageStart mid m n))"
  "\<not> is_block_start (BuildMessageStop n k r)"
  by (simp_all add: is_block_start_def event_names_def FormatSSE_def BuildPing_def
      BuildContentBlockStart_def BuildContentBlockDelta_def BuildContentBlockStop_def
      BuildToolUseStart_def BuildToolUseInputDelta_def BuildMessageStart_def
      BuildMessageStop_def Let_def)

lemma is_message_start_simps [simp]:
  "\<not> is_message_start BuildPing"
  "\<not> is_message_start (BuildContentBlockStart i t)"
  "\<not> is_message_start (BuildContentBlockDelta i x)"
  "\<not> is_message_start (BuildContentBlockStop i)"
  "\<not> is_message_start (BuildToolUseStart i a b)"
  "\<not> is_message_start (BuildToolUseInputDelta i x)"
  "is_message_start (fst (BuildMessageStart mid m n))"
  "\<not> is_message_start (BuildMessageStop n k r)"
  by (simp_all add: is_message_start_def event_names_def FormatSSE_def BuildPing_def
      BuildContentBlockStart_def BuildContentBlockDelta_def BuildContentBlockStop_def
      BuildToolUseStart_def BuildToolUseInputDelta_def BuildMessageStart_def
      BuildMessageStop_def Let_def)

lemma quiet_simps [simp]: "quiet []" "quiet (e # es) = (\<not> is_block_start e \<and> \<not> is_ping e \<and> quiet es)"
  "quiet (a @ b) = (quiet a \<and> quiet b)"
  by (auto simp: quiet_def)

lemma first_ping_quiet_append: "quiet a \<Longrightarrow> first_ping (a @ b) = first_ping b"
  by (induction a) auto

lemma start_not_ping: "is_block_start e \<Longrightarrow> \<not> is_ping e"
  by (auto simp: is_block_start_def is_ping_def)

lemma start_not_message_start: "is_block_start e \<Longrightarrow> \<not> is_message_start e"
  by (auto simp: is_block_start_def is_message_start_def)

lemma first_ping_append: "first_ping a \<Longrightarrow> \<forall>e\<in>set b. \<not> is_ping e \<Longrightarrow> first_ping (a @ b)"
  by (induction a) (auto split: list.splits)

lemma quiet_no_ping: "quiet a \<Longrightarrow> \<forall>e\<in>set a. \<not> is_ping e"
  by (auto simp: quiet_def)

lemma step_ok_refl [simp]: "step_ok h [] h"
  by (simp add: step_ok_def)

lemma step_ok_trans:
  "step_ok h n1 h1 \<Longrightarrow> step_ok h1 n2 h2 \<Longrightarrow> step_ok h (n1 @ n2) h2"
  unfolding step_ok_def
  by (auto simp: first_ping_quiet_append first_ping_append dest: quiet_no_ping split: if_splits)

lemma fire_ping_ok:
  "is_block_start s \<Longrightarrow>
   \<exists>h' new. fire_ping (h, ev @ [s]) = (h', ev @ new) \<and> step_ok h new h'"
  by (simp add: fire_ping_def step_ok_def start_not_ping start_not_message_start)

lemma open_text_block_ok:
  "\<exists>h' new. open_text_block (h, ev) = (h', ev @ new) \<and> step_ok h new h'"
  by (simp add: open_text_block_def fire_ping_def step_ok_def Let_def)

lemma on_think_start_ok:
  "\<exists>h' new. on_think_start h pos ts ev = (h', ev @ new) \<and> step_ok h new h'"
  by (simp add: on_think_start_def open_text_block_def fire_ping_def step_ok_def Let_def)

lemma flush_text_ok:
  "\<exists>h' new. flush_text h pos ev = (h', ev @ new) \<and> step_ok h new h'"
  by (simp add: flush_text_def open_text_block_def fire_ping_def step_ok_def Let_def)

lemma on_think_end_ok:
  "\<exists>h' new. on_think_end h pos ts ev = (h', ev @ new) \<and> step_ok h new h'"
  by (simp add: on_think_end_def step_ok_def Let_def)

lemma flush_thinking_ok:
  "\<exists>h' new. flush_thinking h pos ev = (h', ev @ new) \<and> step_ok h new h'"
  by (simp add: flush_thinking_def step_ok_def Let_def)


declare scan.simps [simp del]

lemma scan_ok:
  "\<exists>h' p' new. scan h pos ev = (h', p', ev @ new) \<and> step_ok h new h'"
proof (induction h pos ev rule: scan.induct)
  case (1 h pos events)
  show ?case
  proof (cases "pos < length (ThinkBuffer h)")
    case False
    then show ?thesis by (subst scan.simps) simp
  next
    case in_range: True
    show ?thesis
    proof (cases "InThinkBlock h")
      case False
      show ?thesis
      proof (cases "strings_Index (drop pos (ThinkBuffer h)) ThinkingStartTag")
        case None
        obtain h1 n1 where "flush_text h pos events = (h1, events @ n1)" "step_ok h n1 h1"
          using flush_text_ok by blast
        with in_range False None show ?thesis by (subst scan.simps) simp
      next
        case (Some i)
        obtain h1 n1 where a: "on_think_start h pos (i + pos) events = (h1, events @ n1)"
          and b: "step_ok h n1 h1"
          using on_think_start_ok by blast
        from "1.IH"(1)[OF in_range False Some] a
        obtain h2 p2 n2 where c: "scan h1 (i + pos + length ThinkingStartTag) (events @ n1) = (h2, p2, (events @ n1) @ n2)"
          and d: "step_ok h1 n2 h2"
          by auto
        have "scan h pos events = (h2, p2, events @ (n1 @ n2))"
          using in_range False Some a c by (subst scan.simps) simp
        with step_ok_trans[OF b d] show ?thesis by blast
      qed
    next
      case True
      show ?thesis
      proof (cases "strings_Index (drop pos (ThinkBuffer h)) ThinkingEndTag")
        case None
        obtain h1 n1 where "flush_thinking h pos events = (h1, events @ n1)" "step_ok h n1 h1"
          using flush_thinking_ok by blast
        with in_range True None show ?thesis by (subst scan.simps) simp
      next
        case (Some i)
        obtain h1 n1 where a: "on_think_end h pos (i + pos) events = (h1, events @ n1)"
          and b: "step_ok h n1 h1"
          using on_think_end_ok by blast
        from "1.IH"(2)[OF in_range _ Some] True a
        obtain h2 p2 n2 where c: "scan h1 (i + pos + length ThinkingEndTag) (events @ n1) = (h2, p2, (events @ n1) @ n2)"
          and d: "step_ok h1 n2 h2"
          by auto
        have "scan h pos events = (h2, p2, events @ (n1 @ n2))"
          using in_range True Some a c by (subst scan.simps) simp
        with step_ok_trans[OF b d] show ?thesis by blast
      qed
    qed
  qed
qed

lemma step_ok_flags:
  "step_ok h new h1 \<Longrightarrow> PingPending h2 = PingPending h1 \<Longrightarrow>
   MessageStartSent h2 = MessageStartSent h1 \<Longrightarrow> step_ok h new h2"
  by (simp add: step_ok_def)

lemma step_ok_flags0:
  "step_ok h1 new h' \<Longrightarrow> PingPending h1 = PingPending h \<Longrightarrow>
   MessageStartSent h1 = MessageStartSent h \<Longrightarrow> step_ok h new h'"
  by (simp add: step_ok_def)

lemma on_assistant_end_ok:
  "\<exists>h' new. on_assistant_end h ev = (h', ev @ new) \<and> step_ok h new h'"
  by (simp add: on_assistant_end_def step_ok_def)

lemma on_tool_use_ok:
  "\<exists>h' new. on_tool_use marshal payloadMap h ev = (h', ev @ new) \<and> step_ok h new h'"
  by (simp add: on_tool_use_def fire_ping_def step_ok_def Let_def)

lemma close_tool_block_ok:
  "\<exists>h' new. close_tool_block (h, ev) = (h', ev @ new) \<and> step_ok h new h'"
  by (simp add: close_tool_block_def step_ok_def)

lemma on_assistant_response_ok:
  "\<exists>h' new. on_assistant_response payloadMap h ev = (h', ev @ new) \<and> step_ok h new h'"
proof -
  obtain h1 n1 where p1: "close_tool_block (h, ev) = (h1, ev @ n1)" and s1: "step_ok h n1 h1"
    using close_tool_block_ok by blast
  show ?thesis
  proof (cases "str_or_empty (field payloadMap ''content'') = []")
    case True
    then show ?thesis using p1 s1
      by (simp add: on_assistant_response_def Let_def)
  next
    case False
    define c where "c = str_or_empty (field payloadMap ''content'')"
    obtain h2 p2 n2 where sc: "scan (h1\<lparr>ThinkBuffer := ThinkBuffer h1 @ c\<rparr>) 0 (ev @ n1) = (h2, p2, (ev @ n1) @ n2)"
      and s2: "step_ok (h1\<lparr>ThinkBuffer := ThinkBuffer h1 @ c\<rparr>) n2 h2"
      using scan_ok by blast
    have s2': "step_ok h1 n2 h2" using s2 by (rule step_ok_flags0) simp_all
    have s: "step_ok h (n1 @ n2) h2" using s1 s2' by (rule step_ok_trans)
    show ?thesis using False p1 sc s
      by (auto simp add: on_assistant_response_def Let_def c_def[symmetric]
          intro: step_ok_flags)
  qed
qed

text \<open>One call of \<open>HandleEvent\<close>: an \<open>initial-response\<close> either sends message_start or does nothing; every other event is a step in the sense of \<open>step_ok\<close>.\<close>

lemma HandleEvent_other_ok:
  assumes "eventType \<noteq> ''initial-response''"
  shows "step_ok h (fst (HandleEvent mid marshal eventType payload h))
                   (snd (HandleEvent mid marshal eventType payload h))"
proof (cases payload)
  case (JObj m)
  obtain h1 n1 where 1: "on_assistant_response m h [] = (h1, n1)" "step_ok h n1 h1"
    using on_assistant_response_ok[of m h "[]"] by auto
  obtain h2 n2 where 2: "on_tool_use marshal m h [] = (h2, n2)" "step_ok h n2 h2"
    using on_tool_use_ok[of marshal m h "[]"] by auto
  obtain h3 n3 where 3: "on_assistant_end h [] = (h3, n3)" "step_ok h n3 h3"
    using on_assistant_end_ok[of h "[]"] by auto
  show ?thesis using assms JObj 1 2 3
    by (simp add: HandleEvent_def)
qed (simp_all add: HandleEvent_def)

lemma HandleEvent_initial:
  "MessageStartSent h \<Longrightarrow> HandleEvent mid marshal ''initial-response'' (JObj m) h = ([], h)"
  "\<not> MessageStartSent h \<Longrightarrow>
     fst (HandleEvent mid marshal ''initial-response'' (JObj m) h) =
       [fst (BuildMessageStart mid (Model h) (InputTokens h))] \<and>
     MessageStartSent (snd (HandleEvent mid marshal ''initial-response'' (JObj m) h)) \<and>
     PingPending (snd (HandleEvent mid marshal ''initial-response'' (JObj m) h))"
  by (simp_all add: HandleEvent_def on_initial_response_def Let_def split_beta)

lemma feed_append:
  "feed mid marshal h (a @ b) =
     (case feed mid marshal h a of
        (o1, h1) \<Rightarrow> (case feed mid marshal h1 b of (o2, h2) \<Rightarrow> (o1 @ o2, h2)))"
  by (induction a arbitrary: h) (simp_all add: split_beta)

lemma message_start_not_start: "is_message_start e \<Longrightarrow> \<not> is_block_start e"
  by (auto simp: is_block_start_def is_message_start_def)

lemma message_start_not_ping: "is_message_start e \<Longrightarrow> \<not> is_ping e"
  by (auto simp: is_ping_def is_message_start_def)

lemma first_ping_has_start: "first_ping xs \<Longrightarrow> \<exists>e\<in>set xs. is_block_start e"
  by (induction xs) (auto split: if_splits)

lemma first_ping_count: "first_ping xs \<Longrightarrow> length (filter is_ping xs) = 1"
  by (induction xs) (auto split: if_splits list.splits simp: start_not_ping filter_empty_conv)

lemma first_ping_next:
  "first_ping xs \<Longrightarrow> \<exists>p. next_after_first_start xs = Some p \<and> is_ping p"
  by (induction xs) (auto split: if_splits list.splits simp: next_after_first_start_def)

lemma HandleEvent_cases:
  obtains (other) "step_ok h (fst (HandleEvent mid marshal et payload h))
                             (snd (HandleEvent mid marshal et payload h))"
  | (sent) "MessageStartSent h" "HandleEvent mid marshal et payload h = ([], h)"
  | (start) m where "\<not> MessageStartSent h" "et = ''initial-response''" "payload = JObj m"
      "fst (HandleEvent mid marshal et payload h) = [fst (BuildMessageStart mid (Model h) (InputTokens h))]"
      "MessageStartSent (snd (HandleEvent mid marshal et payload h))"
      "PingPending (snd (HandleEvent mid marshal et payload h))"
proof (cases "et = ''initial-response''")
  case False
  then show ?thesis using HandleEvent_other_ok other by blast
next
  case ir: True
  show ?thesis
  proof (cases payload)
    case (JObj m)
    show ?thesis
    proof (cases "MessageStartSent h")
      case True
      then show ?thesis using sent ir JObj HandleEvent_initial(1)[of h mid marshal m] by simp
    next
      case False
      then show ?thesis
        using start[of m] ir JObj HandleEvent_initial(2)[of h mid marshal m] by simp
    qed
  qed (use other in \<open>simp_all add: HandleEvent_def\<close>)
qed

text \<open>Once message_start has been sent, a whole run is a step in the sense of \<open>step_ok\<close>.\<close>

lemma feed_step_ok:
  "MessageStartSent h \<Longrightarrow>
   step_ok h (fst (feed mid marshal h es)) (snd (feed mid marshal h es))"
proof (induction es arbitrary: h)
  case Nil
  then show ?case by simp
next
  case (Cons e es)
  obtain o1 h1 where 1: "HandleEvent mid marshal (fst e) (snd e) h = (o1, h1)"
    by (cases "HandleEvent mid marshal (fst e) (snd e) h")
  have s: "step_ok h o1 h1"
    using Cons.prems 1 by (cases rule: HandleEvent_cases[of h mid marshal "fst e" "snd e"]) simp_all
  then have "MessageStartSent h1" using Cons.prems by (simp add: step_ok_def)
  from Cons.IH[OF this] s show ?case
    using 1 by (auto simp: split_beta intro: step_ok_trans)
qed

text \<open>The message_start count of a run.\<close>

lemma feed_message_start:
  "length (filter is_message_start (fst (feed mid marshal h es))) \<le> (if MessageStartSent h then 0 else 1) \<and>
   (MessageStartSent (snd (feed mid marshal h es)) =
      (MessageStartSent h \<or> (\<exists>e\<in>set (fst (feed mid marshal h es)). is_message_start e)))"
proof (induction es arbitrary: h)
  case Nil
  then show ?case by simp
next
  case (Cons e es)
  obtain o1 h1 where 1: "HandleEvent mid marshal (fst e) (snd e) h = (o1, h1)"
    by (cases "HandleEvent mid marshal (fst e) (snd e) h")
  show ?case
  proof (cases rule: HandleEvent_cases[of h mid marshal "fst e" "snd e"])
    case other
    then have "filter is_message_start o1 = []" "MessageStartSent h1 = MessageStartSent h"
      using 1 by (auto simp: step_ok_def filter_empty_conv)
    then show ?thesis using Cons.IH[of h1] 1 by (auto simp: split_beta filter_empty_conv)
  next
    case sent
    then show ?thesis using Cons.IH[of h] 1 by (auto simp: split_beta)
  next
    case (start m)
    then show ?thesis using Cons.IH[of h1] 1 by (auto simp: split_beta)
  qed
qed

text \<open>As long as no block has been opened, the ping is pending exactly when message_start was sent.\<close>

lemma feed_before_first_start:
  "PingPending h = MessageStartSent h \<Longrightarrow>
   \<not> list_ex is_block_start (fst (feed mid marshal h es)) \<Longrightarrow>
   PingPending (snd (feed mid marshal h es)) = MessageStartSent (snd (feed mid marshal h es)) \<and>
   quiet (fst (feed mid marshal h es))"
proof (induction es arbitrary: h)
  case Nil
  then show ?case by simp
next
  case (Cons e es)
  obtain o1 h1 where 1: "HandleEvent mid marshal (fst e) (snd e) h = (o1, h1)"
    by (cases "HandleEvent mid marshal (fst e) (snd e) h")
  from Cons.prems(2) 1 have ns1: "\<not> list_ex is_block_start o1"
    and ns2: "\<not> list_ex is_block_start (fst (feed mid marshal h1 es))"
    by (auto simp: split_beta list_ex_iff)
  have "PingPending h1 = MessageStartSent h1 \<and> quiet o1"
  proof (cases rule: HandleEvent_cases[of h mid marshal "fst e" "snd e"])
    case other
    then have s: "step_ok h o1 h1" using 1 by simp
    show ?thesis
    proof (cases "PingPending h")
      case True
      with s ns1 first_ping_has_start[of o1] show ?thesis
        using Cons.prems(1) by (auto simp: step_ok_def quiet_def list_ex_iff split: if_splits)
    next
      case False
      with s ns1 show ?thesis
        using Cons.prems(1) by (auto simp: step_ok_def quiet_def list_ex_iff)
    qed
  next
    case sent
    then show ?thesis using 1 Cons.prems(1) by simp
  next
    case (start m)
    then show ?thesis using 1 by simp
  qed
  with Cons.IH[of h1, OF _ ns2] show ?case using 1 by (simp add: split_beta)
qed

lemma Finish_quiet:
  "quiet (fst (Finish h)) \<and> (\<forall>e\<in>set (fst (Finish h)). \<not> is_message_start e)"
  by (simp add: Finish_def Let_def)

lemma fresh_flags [simp]:
  "\<not> MessageStartSent (NewClaudeStreamHandler model n)"
  "\<not> PingPending (NewClaudeStreamHandler model n)"
  by (simp_all add: NewClaudeStreamHandler_def)

text \<open>A run in which an \<open>initial-response\<close> is handled before any block has been opened.\<close>

lemma run_after_initial_response:
  assumes es: "es = pre @ (''initial-response'', JObj p) # post"
    and pre: "\<not> list_ex is_block_start (fst (feed mid marshal (NewClaudeStreamHandler model n) pre))"
  shows "\<exists>o1 o2 h2.
    run_finish mid marshal (NewClaudeStreamHandler model n) es =
      o1 @ o2 @ fst (feed mid marshal h2 post) @ fst (Finish (snd (feed mid marshal h2 post))) \<and>
    quiet o1 \<and> quiet o2 \<and> PingPending h2 \<and> MessageStartSent h2 \<and>
    (\<exists>e\<in>set (o1 @ o2). is_message_start e)"
proof -
  define h0 where "h0 = NewClaudeStreamHandler model n"
  define o1 where "o1 = fst (feed mid marshal h0 pre)"
  define h1 where "h1 = snd (feed mid marshal h0 pre)"
  define o2 where "o2 = fst (HandleEvent mid marshal ''initial-response'' (JObj p) h1)"
  define h2 where "h2 = snd (HandleEvent mid marshal ''initial-response'' (JObj p) h1)"
  have b: "PingPending h1 = MessageStartSent h1 \<and> quiet o1"
    unfolding h1_def o1_def h0_def
    by (rule feed_before_first_start) (use pre in simp_all)
  have m: "MessageStartSent h1 = (\<exists>e\<in>set o1. is_message_start e)"
    using feed_message_start[of mid marshal h0 pre] by (simp add: h1_def o1_def h0_def)
  have run: "run_finish mid marshal h0 es =
      o1 @ o2 @ fst (feed mid marshal h2 post) @ fst (Finish (snd (feed mid marshal h2 post)))"
    by (simp add: run_finish_def es feed_append split_beta o1_def h1_def o2_def h2_def)
  have c: "quiet o2 \<and> PingPending h2 \<and> MessageStartSent h2 \<and> (\<exists>e\<in>set (o1 @ o2). is_message_start e)"
  proof (cases "MessageStartSent h1")
    case True
    then show ?thesis using b m HandleEvent_initial(1)[of h1 mid marshal p]
      by (simp add: o2_def h2_def)
  next
    case False
    then show ?thesis using HandleEvent_initial(2)[of h1 mid marshal p]
      by (simp add: o2_def h2_def)
  qed
  show ?thesis using run b c unfolding h0_def by blast
qed

section \<open>What the stream handler counts and what it emits\<close>


lemma text_delta_text_simps [simp]:
  "text_delta_text BuildPing = []"
  "text_delta_text (BuildContentBlockStart i t) = []"
  "text_delta_text (BuildContentBlockDelta i x) = x"
  "text_delta_text (BuildContentBlockStop i) = []"
  "text_delta_text (BuildToolUseStart i a b) = []"
  "text_delta_text (BuildToolUseInputDelta i x) = []"
  "text_delta_text (fst (BuildMessageStart mid m n)) = []"
  "text_delta_text (BuildMessageStop n k r) = []"
  by (simp_all add: text_delta_text_def delta_of_def first_data_def field_def str_or_empty_def
      event_names_def FormatSSE_def BuildPing_def
      BuildContentBlockStart_def BuildContentBlockDelta_def BuildContentBlockStop_def
      BuildToolUseStart_def BuildToolUseInputDelta_def BuildMessageStart_def
      BuildMessageStop_def Let_def)

lemma input_delta_json_simps [simp]:
  "input_delta_json BuildPing = []"
  "input_delta_json (BuildContentBlockStart i t) = []"
  "input_delta_json (BuildContentBlockDelta i x) = []"
  "input_delta_json (BuildContentBlockStop i) = []"
  "input_delta_json (BuildToolUseStart i a b) = []"
  "input_delta_json (BuildToolUseInputDelta i x) = x"
  "input_delta_json (fst (BuildMessageStart mid m n)) = []"
  "input_delta_json (BuildMessageStop n k r) = []"
  by (simp_all add: input_delta_json_def delta_of_def first_data_def field_def str_or_empty_def
      event_names_def FormatSSE_def BuildPing_def
      BuildContentBlockStart_def BuildContentBlockDelta_def BuildContentBlockStop_def
      BuildToolUseStart_def BuildToolUseInputDelta_def BuildMessageStart_def
      BuildMessageStop_def Let_def)

lemma emitted_simps [simp]:
  "emitted_text [] = []" "emitted_text (e # es) = text_delta_text e @ emitted_text es"
  "emitted_text (a @ b) = emitted_text a @ emitted_text b"
  "emitted_tool_input [] = []"
  "emitted_tool_input (e # es) = input_delta_json e @ emitted_tool_input es"
  "emitted_tool_input (a @ b) = emitted_tool_input a @ emitted_tool_input b"
  by (simp_all add: emitted_text_def emitted_tool_input_def)


lemma counted_le_refl [simp]: "counted_le h [] h"
  by (simp add: counted_le_def)





















lemma fresh_counted [simp]:
  "not_thinking (NewClaudeStreamHandler model n)"
  "counted_text (NewClaudeStreamHandler model n) = []"
  "counted_tool_input (NewClaudeStreamHandler model n) = []"
  "CurrentToolUse (NewClaudeStreamHandler model n) = None"
  by (simp_all add: NewClaudeStreamHandler_def not_thinking_def counted_text_def
      counted_tool_input_def)

lemma Finish_emits_no_delta [simp]:
  "emitted_text (fst (Finish h)) = []" "emitted_tool_input (fst (Finish h)) = []"
  by (simp_all add: Finish_def Let_def split_beta)


lemma Finish_nonempty [simp]: "fst (Finish h) \<noteq> []"
  by (simp add: Finish_def Let_def split_beta)



section \<open>Properties of the stream handler\<close>

text \<open>
  Claim C1 says that a start tag split across two consecutive text fragments (one ending
  \<open><thi\<close>, the next beginning \<open>nking>\<close>) is detected as one marker and opens a
  thinking block, and that no piece of the tag is sent as text. The scanning loop
  always leaves \<open>ThinkBuffer\<close> empty, so the tag is never completed: run on these two
  fragments, the handler opens one text block and sends both halves of the tag as its
  text deltas. The same tag in one fragment opens a thinking block.
\<close>

theorem split_start_tag_sent_as_text:
  "run_finish ''msg_1'' no_marshal (NewClaudeStreamHandler ''m'' 0)
     [(''assistantResponseEvent'', JObj [(''content'', JStr ''<thi'')]),
      (''assistantResponseEvent'', JObj [(''content'', JStr ''nking>'')])] =
   [BuildContentBlockStart 0 ''text'',
    BuildContentBlockDelta 0 ''<thi'',
    BuildContentBlockDelta 0 ''nking>'',
    BuildContentBlockStop 0,
    BuildMessageStop 0 2 None] \<and>
   run_finish ''msg_1'' no_marshal (NewClaudeStreamHandler ''m'' 0)
     [(''assistantResponseEvent'', JObj [(''content'', JStr ''<thinking>'')])] =
   [BuildContentBlockStart 0 ''thinking'',
    BuildContentBlockStop 0,
    BuildMessageStop 0 1 None]"
  by code_simp

text \<open>
  Claim C2 says that after \<open>Finish\<close> the output holds as many content_block_start as
  content_block_stop events, with indices 0, 1, 2, ... The text block opened after a
  closed thinking block inherits \<open>ContentBlockStopSent = True\<close> and is never closed:
  one fragment \<open><thinking>a</thinking>b\<close> gives two starts (indices 0 and 1) and one
  stop. In the other direction, a start tag that follows a finished tool-use block
  closes that block a second time: two starts and three stops.
\<close>

theorem text_after_thinking_never_closed:
  "run_finish ''msg_1'' no_marshal (NewClaudeStreamHandler ''m'' 0)
     [(''assistantResponseEvent'', JObj [(''content'', JStr ''<thinking>a</thinking>b'')])] =
   [BuildContentBlockStart 0 ''thinking'',
    BuildContentBlockDelta 0 ''a'',
    BuildContentBlockStop 0,
    BuildContentBlockStart 1 ''text'',
    BuildContentBlockDelta 1 ''b'',
    BuildMessageStop 0 1 None] \<and>
   length (filter is_block_start (run_finish ''msg_1'' no_marshal (NewClaudeStreamHandler ''m'' 0)
     [(''assistantResponseEvent'', JObj [(''content'', JStr ''<thinking>a</thinking>b'')])])) = 2 \<and>
   length (filter is_block_stop (run_finish ''msg_1'' no_marshal (NewClaudeStreamHandler ''m'' 0)
     [(''assistantResponseEvent'', JObj [(''content'', JStr ''<thinking>a</thinking>b'')])])) = 1 \<and>
   run_finish ''msg_1'' no_marshal (NewClaudeStreamHandler ''m'' 0)
     [(''toolUseEvent'', JObj [(''toolUseId'', JStr ''t1''), (''name'', JStr ''get''),
                               (''stop'', JBool True)]),
      (''assistantResponseEvent'', JObj [(''content'', JStr ''<thinking>x'')])] =
   [BuildToolUseStart 0 ''t1'' ''get'',
    BuildContentBlockStop 0,
    BuildContentBlockStop 0,
    BuildContentBlockStart 1 ''thinking'',
    BuildContentBlockDelta 1 ''x'',
    BuildContentBlockStop 1,
    BuildMessageStop 0 1 None]"
  by code_simp




text \<open>
  Claim C6, as amended: over a whole run message_start is emitted at most once; and when
  an \<open>initial-response\<close> event with an object payload is handled before any
  content_block_start has been emitted, a message_start stands among the events before
  the first content_block_start of the output.
\<close>

theorem message_start_once_before_first_block:
  "length (filter is_message_start (run_finish mid marshal (NewClaudeStreamHandler model n) es)) \<le> 1 \<and>
   (es = pre @ (''initial-response'', JObj p) # post \<and>
    \<not> list_ex is_block_start (fst (feed mid marshal (NewClaudeStreamHandler model n) pre)) \<longrightarrow>
    list_ex is_message_start (takeWhile (\<lambda>e. \<not> is_block_start e)
      (run_finish mid marshal (NewClaudeStreamHandler model n) es)))"
proof (intro conjI impI)
  have "filter is_message_start (fst (Finish h)) = []" for h
    using Finish_quiet[of h] by (simp add: filter_empty_conv)
  then show "length (filter is_message_start (run_finish mid marshal (NewClaudeStreamHandler model n) es)) \<le> 1"
    using feed_message_start[of mid marshal "NewClaudeStreamHandler model n" es]
    by (simp add: run_finish_def split_beta)
next
  assume "es = pre @ (''initial-response'', JObj p) # post \<and>
    \<not> list_ex is_block_start (fst (feed mid marshal (NewClaudeStreamHandler model n) pre))"
  then obtain o1 o2 h2 where
    run: "run_finish mid marshal (NewClaudeStreamHandler model n) es =
      o1 @ o2 @ fst (feed mid marshal h2 post) @ fst (Finish (snd (feed mid marshal h2 post)))"
    and q: "quiet o1" "quiet o2" and ms: "\<exists>e\<in>set (o1 @ o2). is_message_start e"
    using run_after_initial_response[of es pre p post mid marshal model n] by blast
  have "takeWhile (\<lambda>e. \<not> is_block_start e) ((o1 @ o2) @ r) = (o1 @ o2) @ takeWhile (\<lambda>e. \<not> is_block_start e) r" for r
    using q by (intro takeWhile_append2) (auto simp: quiet_def)
  then show "list_ex is_message_start (takeWhile (\<lambda>e. \<not> is_block_start e)
      (run_finish mid marshal (NewClaudeStreamHandler model n) es))"
    using ms run by (auto simp: list_ex_iff)
qed

text \<open>The hypothesis of the theorem for C6 is met by a run whose second event is the \<open>initial-response\<close>.\<close>

theorem message_start_once_before_first_block_witness:
  "length (filter is_message_start (run_finish ''msg_1'' no_marshal (NewClaudeStreamHandler ''m'' 0)
      [(''assistantResponseEnd'', JObj []), (''initial-response'', JObj []),
       (''assistantResponseEvent'', JObj [(''content'', JStr ''hi'')])])) \<le> 1 \<and>
   \<not> list_ex is_block_start (fst (feed ''msg_1'' no_marshal (NewClaudeStreamHandler ''m'' 0)
      [(''assistantResponseEnd'', JObj [])])) \<and>
   list_ex is_message_start (takeWhile (\<lambda>e. \<not> is_block_start e)
      (run_finish ''msg_1'' no_marshal (NewClaudeStreamHandler ''m'' 0)
        [(''assistantResponseEnd'', JObj []), (''initial-response'', JObj []),
         (''assistantResponseEvent'', JObj [(''content'', JStr ''hi'')])]))"
proof -
  have pre: "\<not> list_ex is_block_start (fst (feed ''msg_1'' no_marshal (NewClaudeStreamHandler ''m'' 0)
      [(''assistantResponseEnd'', JObj [])]))"
    by code_simp
  show ?thesis
    using pre message_start_once_before_first_block
      [of "''msg_1''" no_marshal "''m''" 0
          "[(''assistantResponseEnd'', JObj []), (''initial-response'', JObj []),
            (''assistantResponseEvent'', JObj [(''content'', JStr ''hi'')])]"
          "[(''assistantResponseEnd'', JObj [])]" "[]"
          "[(''assistantResponseEvent'', JObj [(''content'', JStr ''hi'')])]"]
    by simp
qed

text \<open>
  Claim C6 as stated holds for every sequence. When text arrives before the
  \<open>initial-response\<close>, message_start is emitted after the first content_block_start.
\<close>

theorem message_start_after_block_start:
  "run_finish ''msg_1'' no_marshal (NewClaudeStreamHandler ''m'' 0)
     [(''assistantResponseEvent'', JObj [(''content'', JStr ''hi'')]),
      (''initial-response'', JObj [])] =
   [BuildContentBlockStart 0 ''text'',
    BuildContentBlockDelta 0 ''hi'',
    fst (BuildMessageStart ''msg_1'' ''m'' 0),
    BuildContentBlockStop 0,
    BuildMessageStop 0 1 None] \<and>
   \<not> list_ex is_message_start (takeWhile (\<lambda>e. \<not> is_block_start e)
     (run_finish ''msg_1'' no_marshal (NewClaudeStreamHandler ''m'' 0)
       [(''assistantResponseEvent'', JObj [(''content'', JStr ''hi'')]),
        (''initial-response'', JObj [])]))"
  by code_simp

text \<open>
  Claim C7, as amended: when an \<open>initial-response\<close> event with an object payload is
  handled before any content_block_start has been emitted, and the run opens at least
  one block, the output holds exactly one ping and it is the event right after the first
  content_block_start.
\<close>

theorem one_ping_after_first_block_start:
  assumes "es = pre @ (''initial-response'', JObj p) # post"
    and "\<not> list_ex is_block_start (fst (feed mid marshal (NewClaudeStreamHandler model n) pre))"
    and "list_ex is_block_start (run_finish mid marshal (NewClaudeStreamHandler model n) es)"
  shows "length (filter is_ping (run_finish mid marshal (NewClaudeStreamHandler model n) es)) = 1 \<and>
         (\<exists>e. next_after_first_start (run_finish mid marshal (NewClaudeStreamHandler model n) es) = Some e \<and>
              is_ping e)"
proof -
  from assms(1,2) obtain o1 o2 h2 where
    run0: "run_finish mid marshal (NewClaudeStreamHandler model n) es =
      o1 @ o2 @ fst (feed mid marshal h2 post) @ fst (Finish (snd (feed mid marshal h2 post)))"
    and q: "quiet o1" "quiet o2"
    and h2: "PingPending h2" "MessageStartSent h2"
    using run_after_initial_response[of es pre p post mid marshal model n] by blast
  define o3 where o3: "o3 = fst (feed mid marshal h2 post)"
  have run: "run_finish mid marshal (NewClaudeStreamHandler model n) es =
      o1 @ o2 @ o3 @ fst (Finish (snd (feed mid marshal h2 post)))"
    using run0 by (simp add: o3)
  define fin where "fin = fst (Finish (snd (feed mid marshal h2 post)))"
  have qf: "quiet fin" using Finish_quiet by (simp add: fin_def)
  have "step_ok h2 o3 (snd (feed mid marshal h2 post))"
    unfolding o3 using h2(2) by (rule feed_step_ok)
  then have "quiet o3 \<or> first_ping o3" using h2(1) by (auto simp: step_ok_def split: if_splits)
  moreover have "\<not> quiet o3"
    using assms(3) q qf run by (auto simp: list_ex_iff quiet_def fin_def)
  ultimately have "first_ping o3" by blast
  then have "first_ping (o3 @ fin)" using qf by (intro first_ping_append) (auto simp: quiet_def)
  then have "first_ping ((o1 @ o2) @ o3 @ fin)" using q by (subst first_ping_quiet_append) simp_all
  then have fp: "first_ping (run_finish mid marshal (NewClaudeStreamHandler model n) es)"
    using run by (simp add: fin_def)
  show ?thesis using first_ping_count[OF fp] first_ping_next[OF fp] by simp
qed

text \<open>The hypotheses of the theorem for C7 are met by a run that opens a text block after the \<open>initial-response\<close>.\<close>

theorem one_ping_after_first_block_start_witness:
  "\<not> list_ex is_block_start (fst (feed ''msg_1'' no_marshal (NewClaudeStreamHandler ''m'' 0)
      [(''assistantResponseEnd'', JObj [])])) \<and>
   list_ex is_block_start (run_finish ''msg_1'' no_marshal (NewClaudeStreamHandler ''m'' 0)
      [(''assistantResponseEnd'', JObj []), (''initial-response'', JObj []),
       (''assistantResponseEvent'', JObj [(''content'', JStr ''hi'')])]) \<and>
   length (filter is_ping (run_finish ''msg_1'' no_marshal (NewClaudeStreamHandler ''m'' 0)
      [(''assistantResponseEnd'', JObj []), (''initial-response'', JObj []),
       (''assistantResponseEvent'', JObj [(''content'', JStr ''hi'')])])) = 1 \<and>
   (\<exists>e. next_after_first_start (run_finish ''msg_1'' no_marshal (NewClaudeStreamHandler ''m'' 0)
      [(''assistantResponseEnd'', JObj []), (''initial-response'', JObj []),
       (''assistantResponseEvent'', JObj [(''content'', JStr ''hi'')])]) = Some e \<and> is_ping e)"
proof -
  have pre: "\<not> list_ex is_block_start (fst (feed ''msg_1'' no_marshal (NewClaudeStreamHandler ''m'' 0)
      [(''assistantResponseEnd'', JObj [])]))"
    by code_simp
  have opened: "list_ex is_block_start (run_finish ''msg_1'' no_marshal (NewClaudeStreamHandler ''m'' 0)
      [(''assistantResponseEnd'', JObj []), (''initial-response'', JObj []),
       (''assistantResponseEvent'', JObj [(''content'', JStr ''hi'')])])"
    by code_simp
  have es: "[(''assistantResponseEnd'', JObj []), (''initial-response'', JObj []),
       (''assistantResponseEvent'', JObj [(''content'', JStr ''hi'')])] =
       [(''assistantResponseEnd'', JObj [])] @ (''initial-response'', JObj []) #
       [(''assistantResponseEvent'', JObj [(''content'', JStr ''hi'')])]"
    by simp
  show ?thesis
    using pre opened one_ping_after_first_block_start[OF es pre opened] by blast
qed

text \<open>
  Claim C7 as stated holds for every sequence that opens a block. Without an
  \<open>initial-response\<close> the ping is never armed: a run that opens a text block emits no ping.
\<close>

theorem block_opened_without_ping:
  "run_finish ''msg_1'' no_marshal (NewClaudeStreamHandler ''m'' 0)
     [(''assistantResponseEvent'', JObj [(''content'', JStr ''hi'')])] =
   [BuildContentBlockStart 0 ''text'',
    BuildContentBlockDelta 0 ''hi'',
    BuildContentBlockStop 0,
    BuildMessageStop 0 1 None] \<and>
   length (filter is_ping (run_finish ''msg_1'' no_marshal (NewClaudeStreamHandler ''m'' 0)
     [(''assistantResponseEvent'', JObj [(''content'', JStr ''hi'')])])) = 0"
  by code_simp

text \<open>
  Claim C10: for every event type, a call of \<open>HandleEvent\<close> whose payload is not a JSON
  object (a string, a number, a boolean, an array or null) emits no event and returns
  the handler unchanged.
\<close>

theorem HandleEvent_non_object_payload:
  assumes "\<forall>m. payload \<noteq> JObj m"
  shows "HandleEvent mid marshal eventType payload h = ([], h)"
  using assms by (cases payload) (simp_all add: HandleEvent_def)

text \<open>A raw string payload, as the decoder leaves it when the frame's payload is not JSON.\<close>

theorem HandleEvent_non_object_payload_witness:
  "(\<forall>m. JStr ''raw'' \<noteq> JObj m) \<and>
   HandleEvent ''msg_1'' no_marshal ''assistantResponseEvent'' (JStr ''raw'')
     (NewClaudeStreamHandler ''m'' 0) = ([], NewClaudeStreamHandler ''m'' 0)"
  using HandleEvent_non_object_payload
    [of "JStr ''raw''" "''msg_1''" no_marshal "''assistantResponseEvent''" "NewClaudeStreamHandler ''m'' 0"]
  by simp


section \<open>The event-stream decoder on malformed frames\<close>

lemma append_bytes_fresh:
  "chunk \<noteq> [] \<Longrightarrow>
   append_bytes grow ([], 0) chunk =
     (chunk @ replicate (grow (length chunk) - length chunk) (CHR 0x00), length chunk)"
  by (simp add: append_bytes_def blen_def bcap_def elems_def Let_def)

lemma ParseMessage_inconsistent_frame:
  "ParseMessage unmarshal (inconsistent_frame @ rest, 16) = Panic"
  by (simp add: ParseMessage_def inconsistent_frame_def blen_def be_u32_def be_nat_def
      reslice_def bcap_def)

lemma ParseMessage_empty_frame:
  "ParseMessage unmarshal (empty_frame @ rest, 16) =
     Ok \<lparr> Headers = [], Payload = JNull, TotalLength = 16 \<rparr>"
  by (simp add: ParseMessage_def empty_frame_def blen_def be_u32_def be_nat_def
      reslice_def bcap_def elems_def ParseHeaders_def ParseHeaders_from.simps)

lemma frame_lengths [simp]:
  "length inconsistent_frame = 16" "length empty_frame = 16" "length zero_length_prelude = 12"
  "be_u32 (take 4 (inconsistent_frame @ rest)) = 16"
  "be_u32 (take 4 (empty_frame @ rest)) = 16"
  "be_u32 (take 4 (zero_length_prelude @ rest)) = 0"
  "be_u32 (take 4 inconsistent_frame) = 16"
  "be_u32 (take 4 empty_frame) = 16"
  "be_u32 (take 4 zero_length_prelude) = 0"
  by (simp_all add: inconsistent_frame_def empty_frame_def zero_length_prelude_def
      be_u32_def be_nat_def)

lemma drain_short: "n < 12 \<Longrightarrow> drain unmarshal (b, n) sent = Some (Drained (b, n) sent)"
  by (subst drain.simps) (simp add: blen_def)

lemma drain_inconsistent_frame:
  "16 \<le> n \<Longrightarrow> drain unmarshal (inconsistent_frame @ rest, n) sent = Some (Crashed sent)"
  by (subst drain.simps) (simp add: blen_def ParseMessage_inconsistent_frame Let_def)

lemma drain_empty_frame:
  "16 \<le> n \<Longrightarrow> drain unmarshal (empty_frame @ rest, n) sent =
     drain unmarshal (rest, n - 16) (sent @ [\<lparr> Headers = [], Payload = JNull, TotalLength = 16 \<rparr>])"
  by (subst drain.simps) (simp add: blen_def ParseMessage_empty_frame Let_def)

lemma drain_stuck_aux:
  assumes "drain unmarshal b sent = Some y"
  shows "\<not> (12 \<le> blen b \<and> be_u32 (take 4 (fst b)) = 0)"
proof (rule drain.raw_induct
    [where P = "\<lambda>_ b _ _. \<not> (12 \<le> blen b \<and> be_u32 (take 4 (fst b)) = 0)", OF _ assms])
  fix f um buffer s r
  assume IH: "\<And>u b s y. f u b s = Some y \<Longrightarrow> \<not> (12 \<le> blen b \<and> be_u32 (take 4 (fst b)) = 0)"
    and body: "(if 12 \<le> blen buffer
      then let totalLength = be_u32 (take 4 (fst buffer))
           in if blen buffer < unat totalLength
              then Some (Drained buffer s)
              else let messageData = (fst buffer, unat totalLength);
                       buffer =
                         (drop (unat totalLength) (fst buffer),
                          blen buffer - unat totalLength)
                   in case ParseMessage um messageData of
                      Ok message \<Rightarrow> f um buffer (s @ [message])
                      | Err e \<Rightarrow> f um buffer s
                      | Panic \<Rightarrow> Some (Crashed s)
      else Some (Drained buffer s)) = Some r"
  show "\<not> (12 \<le> blen buffer \<and> be_u32 (take 4 (fst buffer)) = 0)"
  proof
    assume stuck: "12 \<le> blen buffer \<and> be_u32 (take 4 (fst buffer)) = 0"
    have m: "ParseMessage um (fst buffer, 0) = Err DataTooShort"
      by (simp add: ParseMessage_def blen_def)
    have b: "(fst buffer, blen buffer) = buffer"
      by (simp add: blen_def)
    from body stuck have "f um buffer s = Some r"
      by (simp add: Let_def m b)
    from IH[OF this] stuck show False by simp
  qed
qed

lemma drain_zero_length:
  "12 \<le> blen b \<Longrightarrow> be_u32 (take 4 (fst b)) = 0 \<Longrightarrow> drain unmarshal b sent = None"
  using drain_stuck_aux[of unmarshal b sent] by (cases "drain unmarshal b sent") auto

text \<open>
  Claim C3 says that the decoder is total and lenient: a frame whose internal offsets are
  inconsistent is skipped, decoding continues with the next frame, and it is never
  aborted and never crashes. \<open>ParseMessage\<close> checks only the two lengths against the
  data it was given; a frame whose headers length reaches past its payload end makes
  the slice expression \<open>data[payloadStart:payloadEnd]\<close> panic, whatever the capacity of
  the buffer. \<open>ParseStream\<close> (which skips frames for which \<open>ParseMessage\<close> returns an
  error) then ends in that panic and the well-formed frame behind is never decoded; two
  well-formed frames are decoded as they should. On a prelude that declares total
  length 0 the inner loop does not end.
\<close>

theorem inconsistent_frame_crashes_decoder:
  "ParseMessage unmarshal (inconsistent_frame @ rest, 16) = Panic \<and>
   ParseStream unmarshal grow [(inconsistent_frame @ empty_frame, EOF)] = Some ([], Panicked) \<and>
   ParseStream unmarshal grow [(empty_frame @ empty_frame, EOF)] =
     Some ([\<lparr> Headers = [], Payload = JNull, TotalLength = 16 \<rparr>,
            \<lparr> Headers = [], Payload = JNull, TotalLength = 16 \<rparr>], Returned_nil) \<and>
   ParseStream unmarshal grow [(zero_length_prelude @ empty_frame, EOF)] = None"
proof (intro conjI)
  have ne: "inconsistent_frame @ empty_frame \<noteq> []" "empty_frame @ empty_frame \<noteq> []"
    "zero_length_prelude @ empty_frame \<noteq> []"
    by (simp_all add: inconsistent_frame_def empty_frame_def zero_length_prelude_def)
  show "ParseMessage unmarshal (inconsistent_frame @ rest, 16) = Panic"
    by (rule ParseMessage_inconsistent_frame)
  show "ParseStream unmarshal grow [(inconsistent_frame @ empty_frame, EOF)] = Some ([], Panicked)"
    using ne(1) by (simp add: ParseStream_def append_bytes_fresh drain_inconsistent_frame)
  show "ParseStream unmarshal grow [(empty_frame @ empty_frame, EOF)] =
     Some ([\<lparr> Headers = [], Payload = JNull, TotalLength = 16 \<rparr>,
            \<lparr> Headers = [], Payload = JNull, TotalLength = 16 \<rparr>], Returned_nil)"
    using ne(2) by (simp add: ParseStream_def append_bytes_fresh drain_empty_frame drain_short)
  show "ParseStream unmarshal grow [(zero_length_prelude @ empty_frame, EOF)] = None"
  proof -
    have "drain unmarshal (zero_length_prelude @ empty_frame @ r, 28) [] = None" for r
      by (rule drain_zero_length) (simp_all add: blen_def)
    then show ?thesis
      using ne(3) by (simp add: ParseStream_def append_bytes_fresh)
  qed
qed


section \<open>The aggregator on tool input that is not JSON\<close>

text \<open>
  Claim C4, as amended: when a content_block_stop arrives for a tool_use block whose
  \<open>partial_json\<close> entry holds the accumulated text, the entry is removed from the block
  whether or not the text parses; when it does not parse the block's \<open>input\<close> keeps the
  value it had (the response is not failed), and when it parses \<open>input\<close> is set to the
  parsed value.
\<close>

theorem tool_block_stop_drops_partial_json:
  assumes "str_or_empty (field data ''type'') = ''content_block_stop''"
    and "field data ''index'' = JNum idx" and "0 \<le> idx" and "nat idx < length (finalContent st)"
    and "finalContent st ! nat idx = JObj block"
    and "field block ''type'' = JStr ''tool_use''"
    and "field block ''partial_json'' = JStr raw"
  shows "aggregate_event unmarshal st ((name, JObj data) # others) =
           Ok (st\<lparr>finalContent := (finalContent st)
                 [nat idx := JObj (AList.delete ''partial_json''
                    (case unmarshal raw of
                       None \<Rightarrow> block
                     | Some input \<Rightarrow> AList.update ''input'' input block))]\<rparr>) \<and>
         field (AList.delete ''partial_json''
                    (case unmarshal raw of
                       None \<Rightarrow> block
                     | Some input \<Rightarrow> AList.update ''input'' input block)) ''partial_json'' = JNull \<and>
         field (AList.delete ''partial_json''
                    (case unmarshal raw of
                       None \<Rightarrow> block
                     | Some input \<Rightarrow> AList.update ''input'' input block)) ''input'' =
           (case unmarshal raw of None \<Rightarrow> field block ''input'' | Some input \<Rightarrow> input)"
  using assms
  by (auto simp: aggregate_event_def on_block_stop_def index_of_def block_at_def Let_def field_def
      delete_conv update_conv split: option.splits)

text \<open>The hypotheses hold for a tool_use block that has accumulated the truncated text \<open>{\<close>.\<close>

theorem tool_block_stop_drops_partial_json_witness:
  "aggregate_event accept_empty_object
     \<lparr> finalContent =
         [JObj [(''type'', JStr ''tool_use''), (''id'', JStr ''t1''), (''name'', JStr ''get''),
                (''input'', JObj []), (''partial_json'', JStr ''{'')]],
       usage = [], stopReason = None \<rparr>
     [(''content_block_stop'', JObj [(''type'', JStr ''content_block_stop''), (''index'', JNum 0)])] =
   Ok \<lparr> finalContent =
         [JObj [(''type'', JStr ''tool_use''), (''id'', JStr ''t1''), (''name'', JStr ''get''),
                (''input'', JObj [])]],
       usage = [], stopReason = None \<rparr>"
proof -
  define block where "block =
    [(''type'', JStr ''tool_use''), (''id'', JStr ''t1''), (''name'', JStr ''get''),
     (''input'', JObj []), (''partial_json'', JStr ''{'')]"
  define st where "st = \<lparr> finalContent = [JObj block], usage = [], stopReason = None \<rparr>"
  define data where "data = [(''type'', JStr ''content_block_stop''), (''index'', JNum 0)]"
  have h: "str_or_empty (field data ''type'') = ''content_block_stop''"
    "field data ''index'' = JNum 0" "(0::int) \<le> 0" "nat 0 < length (finalContent st)"
    "finalContent st ! nat 0 = JObj block"
    "field block ''type'' = JStr ''tool_use''"
    "field block ''partial_json'' = JStr ''{''"
    by (simp_all add: data_def st_def block_def field_def str_or_empty_def)
  from tool_block_stop_drops_partial_json
    [OF h, of accept_empty_object "''content_block_stop''" "[]"]
  show ?thesis
    by (simp add: st_def block_def data_def accept_empty_object_def)
qed

text \<open>
  Claim C4 as stated says that the raw text is retained in the block of the final
  response when it does not parse. A tool call whose whole input is the truncated text
  \<open>{\<close>, run through the stream handler and then the aggregator, ends as a block without
  any \<open>partial_json\<close> entry and with the empty \<open>input\<close> of its content_block_start.
\<close>

theorem unparsable_tool_input_is_discarded:
  "accept_empty_object ''{'' = None \<and>
   aggregate_events accept_empty_object initial_aggregate
     (run_finish ''msg_1'' no_marshal (NewClaudeStreamHandler ''m'' 0)
        [(''toolUseEvent'', JObj [(''toolUseId'', JStr ''t1''), (''name'', JStr ''get''),
                                  (''input'', JStr ''{''), (''stop'', JBool True)])]) =
   Ok \<lparr> finalContent =
         [JObj [(''type'', JStr ''tool_use''), (''id'', JStr ''t1''), (''name'', JStr ''get''),
                (''input'', JObj [])]],
       usage = [(''input_tokens'', 0), (''output_tokens'', 1),
                (''cache_creation_input_tokens'', 0), (''cache_read_input_tokens'', 0)],
       stopReason = Some ''end_turn'' \<rparr>"
  by code_simp


section \<open>Properties of the request transcoder\<close>

lemma strings_Join_empty_sep: "strings_Join xs [] = concat xs"
  by (induction xs "[] :: string" rule: strings_Join.induct) simp_all

lemma merge_history_user_run:
  "merge_history pending (map user_entry run @ items) = merge_history (pending @ run) items"
  by (induction run arbitrary: pending) (simp_all add: user_entry_def)

lemma merge_history_assistant:
  "merge_history pending (items @ assistant_entry a # rest) =
     merge_history pending (items @ [assistant_entry a]) @ merge_history [] rest"
proof (induction items arbitrary: pending)
  case Nil
  then show ?case by (simp add: assistant_entry_def flush_pending_def)
next
  case (Cons item items)
  then show ?case by (simp split: option.splits)
qed

lemma MergeUserMessages_fields:
  "run \<noteq> [] \<Longrightarrow>
   uim_Content (MergeUserMessages run) =
     strings_Join (filter (\<lambda>c. c \<noteq> []) (map uim_Content run)) ''\<newline>\<newline>'' \<and>
   uim_Context (MergeUserMessages run) = uim_Context (hd run) \<and>
   uim_Origin (MergeUserMessages run) = uim_Origin (hd run) \<and>
   uim_ModelID (MergeUserMessages run) = uim_ModelID (hd run) \<and>
   uim_Images (MergeUserMessages run) =
     concat (drop (length (filter (\<lambda>i. i \<noteq> []) (map uim_Images run)) - 2)
                  (filter (\<lambda>i. i \<noteq> []) (map uim_Images run)))"
  by (cases run) (simp_all add: MergeUserMessages_def Let_def)

text \<open>
  What the merge does with a maximal run of consecutive user entries of the converted
  history (begun by the start of the history or an assistant entry, ended by an assistant
  entry or by the end of the history): the run becomes one entry. Its text is the
  non-empty texts of the run joined with a blank-line separator; its context, origin and
  model are those of the first entry; its image list is the concatenation, in order, of
  the last two non-empty image lists of the run.
\<close>

lemma merged_user_run:
  assumes "run \<noteq> []"
  shows "merge_history [] (map user_entry run @ assistant_entry a # rest) =
           user_entry (MergeUserMessages run) # assistant_entry a # merge_history [] rest \<and>
         merge_history [] (map user_entry run) = [user_entry (MergeUserMessages run)] \<and>
         merge_history [] (before @ assistant_entry a0 # map user_entry run @ assistant_entry a # rest) =
           merge_history [] (before @ [assistant_entry a0]) @
           user_entry (MergeUserMessages run) # assistant_entry a # merge_history [] rest \<and>
         merge_history [] (before @ assistant_entry a0 # map user_entry run) =
           merge_history [] (before @ [assistant_entry a0]) @ [user_entry (MergeUserMessages run)] \<and>
         uim_Content (MergeUserMessages run) =
           strings_Join (filter (\<lambda>c. c \<noteq> []) (map uim_Content run)) ''\<newline>\<newline>'' \<and>
         uim_Context (MergeUserMessages run) = uim_Context (hd run) \<and>
         uim_Origin (MergeUserMessages run) = uim_Origin (hd run) \<and>
         uim_ModelID (MergeUserMessages run) = uim_ModelID (hd run) \<and>
         uim_Images (MergeUserMessages run) =
           concat (drop (length (filter (\<lambda>i. i \<noteq> []) (map uim_Images run)) - 2)
                        (filter (\<lambda>i. i \<noteq> []) (map uim_Images run))) \<and>
         (run = earlier @ [x, y] \<and> uim_Images x \<noteq> [] \<and> uim_Images y \<noteq> [] \<longrightarrow>
            uim_Images (MergeUserMessages run) = uim_Images x @ uim_Images y)"
proof -
  have 1: "merge_history [] (map user_entry run @ assistant_entry a # rest) =
           user_entry (MergeUserMessages run) # assistant_entry a # merge_history [] rest"
    using assms by (simp add: merge_history_user_run assistant_entry_def flush_pending_def)
  have 2: "merge_history [] (map user_entry run) = [user_entry (MergeUserMessages run)]"
    using assms merge_history_user_run[of "[]" run "[]"] by (simp add: flush_pending_def)
  have 3: "uim_Images (MergeUserMessages run) = uim_Images x @ uim_Images y"
    if "run = earlier @ [x, y]" "uim_Images x \<noteq> []" "uim_Images y \<noteq> []"
    using that MergeUserMessages_fields[OF assms] by simp
  have 4: "merge_history [] (before @ assistant_entry a0 # map user_entry run @ assistant_entry a # rest) =
           merge_history [] (before @ [assistant_entry a0]) @
           user_entry (MergeUserMessages run) # assistant_entry a # merge_history [] rest"
    using merge_history_assistant[of "[]" before a0 "map user_entry run @ assistant_entry a # rest"] 1
    by simp
  have 5: "merge_history [] (before @ assistant_entry a0 # map user_entry run) =
           merge_history [] (before @ [assistant_entry a0]) @ [user_entry (MergeUserMessages run)]"
    using merge_history_assistant[of "[]" before a0 "map user_entry run"] 2
    by simp
  show ?thesis using 1 2 3 4 5 MergeUserMessages_fields[OF assms] by blast
qed

text \<open>An entry with an empty text adds no separator to the merged text.\<close>

lemma empty_text_adds_no_separator:
  "uim_Content (MergeUserMessages [history_user ''a'' [], history_user [] [],
                                   history_user ''c'' []]) = ''a\<newline>\<newline>c''"
  by (simp add: MergeUserMessages_def history_user_def Let_def)

text \<open>
  Claim C8 says that the merged entry of a run carries exactly the images of the last
  two entries of the run, and so does the comment of \<open>MergeUserMessages\<close>. The function
  collects only the non-empty image lists and keeps the last two of those: three
  consecutive user entries with the image lists [A], [B] and none are merged, by the
  second pass over the history, into one entry with the images [A, B], where the last
  two entries carry [B]. With the image lists [A], [B], [C] the merged entry carries
  [B, C].
\<close>

theorem images_of_earlier_entry_kept:
  "merge_history []
     (map user_entry [history_user ''a'' [png ''A''], history_user ''b'' [png ''B''],
                      history_user ''c'' []]) =
   [user_entry (MergeUserMessages [history_user ''a'' [png ''A''], history_user ''b'' [png ''B''],
                                   history_user ''c'' []])] \<and>
   uim_Images (MergeUserMessages [history_user ''a'' [png ''A''], history_user ''b'' [png ''B''],
                                  history_user ''c'' []]) = [png ''A'', png ''B''] \<and>
   uim_Images (history_user ''b'' [png ''B'']) @ uim_Images (history_user ''c'' []) = [png ''B''] \<and>
   uim_Images (MergeUserMessages [history_user ''a'' [png ''A''], history_user ''b'' [png ''B''],
                                  history_user ''c'' []]) \<noteq>
     uim_Images (history_user ''b'' [png ''B'']) @ uim_Images (history_user ''c'' []) \<and>
   uim_Images (MergeUserMessages [history_user ''a'' [png ''A''], history_user ''b'' [png ''B''],
                                  history_user ''c'' [png ''C'']]) = [png ''B'', png ''C'']"
  by (simp add: MergeUserMessages_def history_user_def Let_def png_def user_entry_def
      flush_pending_def)

lemma request_content_eq:
  "request_content (ConvertClaudeToAmazonQRequest uuid now req cid) =
     with_system_prompt (req_System req)
       (with_tool_documentation (long_desc_tools (req_Tools req))
          (user_message_section now
             (fst (snd (snd (current_prompt (IsThinkingModeEnabled (req_Thinking req))
                (BuildThinkingHint (GetThinkingBudgetTokens (req_Thinking req)))
                (if length (req_Messages req) > 0 then Some (last (req_Messages req)) else None)))))
             (fst (current_prompt (IsThinkingModeEnabled (req_Thinking req))
                (BuildThinkingHint (GetThinkingBudgetTokens (req_Thinking req)))
                (if length (req_Messages req) > 0 then Some (last (req_Messages req)) else None)))))"
  by (simp add: request_content_def ConvertClaudeToAmazonQRequest_def Let_def split_beta)

lemma request_tools_eq:
  "request_tools (ConvertClaudeToAmazonQRequest uuid now req cid) = map ConvertTool (req_Tools req)"
  by (simp add: request_tools_def ConvertClaudeToAmazonQRequest_def Let_def split_beta)

lemma with_system_prompt_suffix: "\<exists>pre. with_system_prompt system c = pre @ c"
  by (simp add: with_system_prompt_def Let_def)

lemma long_desc_tools_filter:
  "long_desc_tools (filter (\<lambda>t. length (tool_Description t) > 10240) tools) = long_desc_tools tools"
  by (simp add: long_desc_tools_def)

lemma tool_documentation_has_entry:
  assumes "t \<in> set tools" and "length (tool_Description t) > 10240"
  shows "\<exists>d1 d2. with_tool_documentation (long_desc_tools tools) body =
           ''--- TOOL DOCUMENTATION BEGIN ---\<newline>'' @ d1 @
           tool_doc_entry (tool_Name t, tool_Description t) @ d2 @
           ''--- TOOL DOCUMENTATION END ---\<newline>\<newline>'' @ body"
proof -
  have "(tool_Name t, tool_Description t) \<in> set (long_desc_tools tools)"
    using assms by (auto simp: long_desc_tools_def)
  then obtain l1 l2 where l: "long_desc_tools tools = l1 @ (tool_Name t, tool_Description t) # l2"
    by (auto dest: split_list)
  show ?thesis
    by (rule exI[of _ "concat (map tool_doc_entry l1)"], rule exI[of _ "concat (map tool_doc_entry l2)"])
       (simp add: with_tool_documentation_def l strings_Join_empty_sep)
qed

lemma length_long_description: "length long_description = 10300"
  by (simp only: long_description_def length_replicate)

lemma length_pairs: "length (concat (replicate n [x, y])) = 2 * n"
  by (induction n) simp_all

lemma character_count_pairs:
  "character_count (concat (replicate n [CHR 0xC3, CHR 0xA9])) = n"
  by (induction n) (simp_all add: character_count_def)

lemma nth_pairs: "i < 2 * n \<Longrightarrow> concat (replicate n [x, y]) ! i = (if even i then x else y)"
proof (induction n arbitrary: i)
  case 0
  then show ?case by simp
next
  case (Suc n)
  show ?case
  proof (cases i)
    case 0
    then show ?thesis by simp
  next
    case (Suc j)
    show ?thesis
    proof (cases j)
      case 0
      then show ?thesis using Suc by simp
    next
      case (Suc k)
      then show ?thesis using \<open>i = Suc j\<close> Suc.prems Suc.IH[of k] by simp
    qed
  qed
qed

lemma length_accented_description: "length accented_description = 10241"
  by (simp only: accented_description_def length_pairs list.size)

lemma character_count_accented_description: "character_count accented_description = 5121"
proof -
  have "character_count (c # s) =
      (if 128 \<le> (of_char c :: nat) \<and> (of_char c :: nat) < 192 then 0 else 1) + character_count s" for c s
    by (simp add: character_count_def)
  then show ?thesis
    by (simp only: accented_description_def character_count_pairs) simp
qed

lemma accented_bytes:
  "accented_description ! 10099 = CHR 0xC3" "accented_description ! 10100 = CHR 0xA9"
proof -
  have "accented_description ! 10099 = concat (replicate 5120 [CHR 0xC3, CHR 0xA9]) ! 10098"
    by (simp only: accented_description_def) simp
  also have "\<dots> = CHR 0xC3"
    by (subst nth_pairs) simp_all
  finally show "accented_description ! 10099 = CHR 0xC3" .
  have "accented_description ! 10100 = concat (replicate 5120 [CHR 0xC3, CHR 0xA9]) ! 10099"
    by (simp only: accented_description_def) simp
  also have "\<dots> = CHR 0xA9"
    by (subst nth_pairs) simp_all
  finally show "accented_description ! 10100 = CHR 0xA9" .
qed

text \<open>
  Claim C9, as amended: a tool whose description is longer than 10240 bytes is converted
  with the first 10100 bytes of the description followed by the sentence
  \<open>...(Full description provided in TOOL DOCUMENTATION section)\<close> after a blank line,
  and the prompt body of the upstream request then contains a TOOL DOCUMENTATION
  section with the tool's name and its full original description. A tool whose
  description is at most 10240 bytes long keeps its name and description, and the
  prompt body is the one the request would have with only the tools whose description
  is longer than that.
\<close>

theorem long_tool_description_documented:
  "spec_Name (aqt_ToolSpecification (ConvertTool t)) = tool_Name t \<and>
   spec_Description (aqt_ToolSpecification (ConvertTool t)) =
     (if length (tool_Description t) > 10240
      then take 10100 (tool_Description t) @
             ''\<newline>\<newline>...(Full description provided in TOOL DOCUMENTATION section)''
      else tool_Description t) \<and>
   request_tools (ConvertClaudeToAmazonQRequest uuid now req cid) = map ConvertTool (req_Tools req) \<and>
   (t \<in> set (req_Tools req) \<and> length (tool_Description t) > 10240 \<longrightarrow>
      (\<exists>pre d1 d2 body.
         request_content (ConvertClaudeToAmazonQRequest uuid now req cid) =
           pre @ ''--- TOOL DOCUMENTATION BEGIN ---\<newline>'' @ d1 @
           ''Tool: '' @ tool_Name t @ ''\<newline>Full Description:\<newline>'' @
           tool_Description t @ ''\<newline>'' @ d2 @
           ''--- TOOL DOCUMENTATION END ---\<newline>\<newline>'' @ body)) \<and>
   request_content (ConvertClaudeToAmazonQRequest uuid now req cid) =
     request_content (ConvertClaudeToAmazonQRequest uuid now
       (req\<lparr>req_Tools := filter (\<lambda>t. length (tool_Description t) > 10240) (req_Tools req)\<rparr>) cid)"
proof (intro conjI impI)
  show "spec_Name (aqt_ToolSpecification (ConvertTool t)) = tool_Name t"
    by (simp add: ConvertTool_def Let_def)
  show "spec_Description (aqt_ToolSpecification (ConvertTool t)) =
     (if length (tool_Description t) > 10240
      then take 10100 (tool_Description t) @
             ''\<newline>\<newline>...(Full description provided in TOOL DOCUMENTATION section)''
      else tool_Description t)"
    by (simp add: ConvertTool_def truncation_pointer_def Let_def)
  show "request_tools (ConvertClaudeToAmazonQRequest uuid now req cid) = map ConvertTool (req_Tools req)"
    by (rule request_tools_eq)
  show "request_content (ConvertClaudeToAmazonQRequest uuid now req cid) =
     request_content (ConvertClaudeToAmazonQRequest uuid now
       (req\<lparr>req_Tools := filter (\<lambda>t. length (tool_Description t) > 10240) (req_Tools req)\<rparr>) cid)"
    by (simp add: request_content_eq long_desc_tools_filter)
next
  assume a: "t \<in> set (req_Tools req) \<and> length (tool_Description t) > 10240"
  define body where "body = user_message_section now
             (fst (snd (snd (current_prompt (IsThinkingModeEnabled (req_Thinking req))
                (BuildThinkingHint (GetThinkingBudgetTokens (req_Thinking req)))
                (if length (req_Messages req) > 0 then Some (last (req_Messages req)) else None)))))
             (fst (current_prompt (IsThinkingModeEnabled (req_Thinking req))
                (BuildThinkingHint (GetThinkingBudgetTokens (req_Thinking req)))
                (if length (req_Messages req) > 0 then Some (last (req_Messages req)) else None)))"
  from a obtain d1 d2 where d: "with_tool_documentation (long_desc_tools (req_Tools req)) body =
           ''--- TOOL DOCUMENTATION BEGIN ---\<newline>'' @ d1 @
           tool_doc_entry (tool_Name t, tool_Description t) @ d2 @
           ''--- TOOL DOCUMENTATION END ---\<newline>\<newline>'' @ body"
    using tool_documentation_has_entry[of t "req_Tools req" body] by blast
  obtain pre where p: "with_system_prompt (req_System req)
      (with_tool_documentation (long_desc_tools (req_Tools req)) body) =
      pre @ with_tool_documentation (long_desc_tools (req_Tools req)) body"
    using with_system_prompt_suffix by blast
  have "request_content (ConvertClaudeToAmazonQRequest uuid now req cid) =
          with_system_prompt (req_System req)
            (with_tool_documentation (long_desc_tools (req_Tools req)) body)"
    by (simp only: request_content_eq body_def)
  also have "\<dots> = pre @ with_tool_documentation (long_desc_tools (req_Tools req)) body"
    by (rule p)
  also have "\<dots> = pre @ ''--- TOOL DOCUMENTATION BEGIN ---\<newline>'' @ d1 @
           ''Tool: '' @ tool_Name t @ ''\<newline>Full Description:\<newline>'' @
           tool_Description t @ ''\<newline>'' @ d2 @
           ''--- TOOL DOCUMENTATION END ---\<newline>\<newline>'' @ body"
    by (simp add: d tool_doc_entry_def)
  finally have "request_content (ConvertClaudeToAmazonQRequest uuid now req cid) =
           pre @ ''--- TOOL DOCUMENTATION BEGIN ---\<newline>'' @ d1 @
           ''Tool: '' @ tool_Name t @ ''\<newline>Full Description:\<newline>'' @
           tool_Description t @ ''\<newline>'' @ d2 @
           ''--- TOOL DOCUMENTATION END ---\<newline>\<newline>'' @ body" .
  then show "\<exists>pre d1 d2 body.
         request_content (ConvertClaudeToAmazonQRequest uuid now req cid) =
           pre @ ''--- TOOL DOCUMENTATION BEGIN ---\<newline>'' @ d1 @
           ''Tool: '' @ tool_Name t @ ''\<newline>Full Description:\<newline>'' @
           tool_Description t @ ''\<newline>'' @ d2 @
           ''--- TOOL DOCUMENTATION END ---\<newline>\<newline>'' @ body"
    by blast
qed

text \<open>A request with a short tool and a tool whose description is 10300 bytes long.\<close>

theorem long_tool_description_documented_witness:
  "length (tool_Description (tool_with_description ''big'' long_description)) > 10240 \<and>
   spec_Description (aqt_ToolSpecification
       (ConvertTool (tool_with_description ''big'' long_description))) =
     take 10100 long_description @
       ''\<newline>\<newline>...(Full description provided in TOOL DOCUMENTATION section)'' \<and>
   (\<exists>pre d1 d2 body.
      request_content (ConvertClaudeToAmazonQRequest fixed_uuid ''Monday, 2025-01-06T10:00:00.000Z''
        (request_with_tools [tool_with_description ''small'' ''adds two numbers'',
                             tool_with_description ''big'' long_description]) []) =
        pre @ ''--- TOOL DOCUMENTATION BEGIN ---\<newline>'' @ d1 @
        ''Tool: big\<newline>Full Description:\<newline>'' @ long_description @ ''\<newline>'' @ d2 @
        ''--- TOOL DOCUMENTATION END ---\<newline>\<newline>'' @ body)"
proof -
  define big where "big = tool_with_description ''big'' long_description"
  define req where "req = request_with_tools [tool_with_description ''small'' ''adds two numbers'', big]"
  have len: "length (tool_Description big) > 10240"
    by (simp add: big_def tool_with_description_def length_long_description)
  have mem: "big \<in> set (req_Tools req)"
    by (simp add: req_def request_with_tools_def)
  note T = long_tool_description_documented
    [of big fixed_uuid "''Monday, 2025-01-06T10:00:00.000Z''" req "[]"]
  have d: "spec_Description (aqt_ToolSpecification (ConvertTool big)) =
     take 10100 (tool_Description big) @
       ''\<newline>\<newline>...(Full description provided in TOOL DOCUMENTATION section)''"
    using T len by presburger
  have "\<exists>pre d1 d2 body.
         request_content (ConvertClaudeToAmazonQRequest fixed_uuid ''Monday, 2025-01-06T10:00:00.000Z'' req []) =
           pre @ ''--- TOOL DOCUMENTATION BEGIN ---\<newline>'' @ d1 @
           ''Tool: '' @ tool_Name big @ ''\<newline>Full Description:\<newline>'' @
           tool_Description big @ ''\<newline>'' @ d2 @
           ''--- TOOL DOCUMENTATION END ---\<newline>\<newline>'' @ body"
    using T mem len by blast
  then have e: "\<exists>pre d1 d2 body.
      request_content (ConvertClaudeToAmazonQRequest fixed_uuid ''Monday, 2025-01-06T10:00:00.000Z'' req []) =
        pre @ ''--- TOOL DOCUMENTATION BEGIN ---\<newline>'' @ d1 @
        ''Tool: big\<newline>Full Description:\<newline>'' @ long_description @ ''\<newline>'' @ d2 @
        ''--- TOOL DOCUMENTATION END ---\<newline>\<newline>'' @ body"
    by (simp add: big_def tool_with_description_def)
  have n: "tool_Description big = long_description"
    by (simp add: big_def tool_with_description_def)
  show ?thesis
    using len d[unfolded n] e unfolding big_def req_def by blast
qed

text \<open>
  Claim C9 as stated measures the description in characters. The code measures it in
  bytes: a description of 5121 characters that takes 10241 bytes is not passed through
  but cut after 10100 bytes, between the two bytes of a character.
\<close>

theorem multibyte_description_cut_inside_character:
  "character_count accented_description = 5121 \<and>
   character_count accented_description \<le> 10240 \<and>
   length accented_description = 10241 \<and>
   spec_Description (aqt_ToolSpecification
       (ConvertTool (tool_with_description ''t'' accented_description))) =
     take 10100 accented_description @
       ''\<newline>\<newline>...(Full description provided in TOOL DOCUMENTATION section)'' \<and>
   spec_Description (aqt_ToolSpecification
       (ConvertTool (tool_with_description ''t'' accented_description))) \<noteq>
     accented_description \<and>
   last (take 10100 accented_description) = CHR 0xC3 \<and>
   accented_description ! 10100 = CHR 0xA9"
proof -
  have d: "spec_Description (aqt_ToolSpecification
       (ConvertTool (tool_with_description ''t'' accented_description))) =
     take 10100 accented_description @
       ''\<newline>\<newline>...(Full description provided in TOOL DOCUMENTATION section)''"
    by (simp add: ConvertTool_def truncation_pointer_def tool_with_description_def Let_def
        length_accented_description)
  have "length (take 10100 accented_description @
       ''\<newline>\<newline>...(Full description provided in TOOL DOCUMENTATION section)'') \<noteq>
       length accented_description"
    by (simp add: length_accented_description)
  then have n: "take 10100 accented_description @
       ''\<newline>\<newline>...(Full description provided in TOOL DOCUMENTATION section)'' \<noteq>
       accented_description"
    by metis
  have len: "length (take 10100 accented_description) = 10100"
    by (simp add: length_accented_description)
  then have ne: "take 10100 accented_description \<noteq> []"
    by auto
  have "last (take 10100 accented_description) = take 10100 accented_description ! 10099"
    using last_conv_nth[OF ne] len by simp
  then have l: "last (take 10100 accented_description) = accented_description ! 10099"
    by simp
  show ?thesis
    using d n l accented_bytes character_count_accented_description
    by (simp add: length_accented_description)
qed

end
